theory Spec2Isabelle
  imports Main
begin

section \<open>Shared data model\<close>

text \<open>
  The payload of a scale-up request (\<^verbatim>\<open>ActionRequestMessage\<close> of \<^verbatim>\<open>scale-up.ts\<close>).
  The source's field \<^verbatim>\<open>id\<close> is called \<open>jobId\<close> here, since \<open>id\<close> is the identity
  function of HOL. The optional \<^verbatim>\<open>retryCounter\<close> is an \<open>option\<close>.
\<close>

record ActionRequestMessage =
  jobId :: int
  eventType :: string
  repositoryName :: string
  repositoryOwner :: string
  installationId :: int
  repoOwnerType :: string
  retryCounter :: "int option"

text \<open>\<^verbatim>\<open>ActionRequestMessageSQS extends ActionRequestMessage\<close> with the delivery identifier.\<close>

record ActionRequestMessageSQS = ActionRequestMessage +
  messageId :: string

text \<open>
  What a JavaScript function can throw, as far as the handlers tell the cases apart:
  \<^verbatim>\<open>ScaleError\<close> (with its \<^verbatim>\<open>failedInstanceCount\<close>) or any other error, kept with its
  message.
\<close>

datatype js_error = ScaleError int | Error string

section \<open>ScaleError.toBatchItemFailures and the scale-up intake handler\<close>

text \<open>
  \<^verbatim>\<open>messages.slice(0, n)\<close> for a count \<open>n\<close> that \<^verbatim>\<open>Math.max(0, \<dots>)\<close> has made non-negative
  is \<open>take\<close>. The batch item failures are represented by their \<^verbatim>\<open>itemIdentifier\<close>s.
\<close>

definition toBatchItemFailures :: "int \<Rightarrow> ActionRequestMessageSQS list \<Rightarrow> string list" where
  "toBatchItemFailures failedInstanceCount messages =
     (let messagesToRetry = max 0 (min failedInstanceCount (int (length messages)))
      in map messageId (take (nat messagesToRetry) messages))"

text \<open>
  A record of the queue event. \<open>body\<close> is the result of \<^verbatim>\<open>JSON.parse(body)\<close>: \<open>None\<close> when
  the text is not JSON, in which case \<^verbatim>\<open>JSON.parse\<close> throws (outside the handler's
  \<^verbatim>\<open>try\<close>).
\<close>

record SQSRecord =
  body :: "ActionRequestMessage option"
  eventSource :: string
  recordMessageId :: string

record SQSBatchResponse =
  batchItemFailures :: "string list"

text \<open>The first loop of \<^verbatim>\<open>scaleUpHandler\<close>: records of another source are skipped.\<close>

fun sqsMessages :: "SQSRecord list \<Rightarrow> js_error + ActionRequestMessageSQS list" where
  "sqsMessages [] = Inr []"
| "sqsMessages (r # rs) =
     (if eventSource r \<noteq> ''aws:sqs'' then sqsMessages rs
      else (case body r of
              None \<Rightarrow> Inl (Error ''SyntaxError'')
            | Some payload \<Rightarrow>
                (case sqsMessages rs of
                   Inl e \<Rightarrow> Inl e
                 | Inr ms \<Rightarrow> Inr (ActionRequestMessage.extend payload
                                   (ActionRequestMessageSQS.fields (recordMessageId r)) # ms))))"

text \<open>
  \<^verbatim>\<open>sqsMessages.sort((l, r) => (l.retryCounter ?? 0) - (r.retryCounter ?? 0))\<close>:
  \<^verbatim>\<open>Array.prototype.sort\<close> is stable, and so is \<open>sort_key\<close>.
\<close>

definition retryKey :: "ActionRequestMessageSQS \<Rightarrow> int" where
  "retryKey m = (case retryCounter m of None \<Rightarrow> 0 | Some c \<Rightarrow> c)"

definition sortByRetry :: "ActionRequestMessageSQS list \<Rightarrow> ActionRequestMessageSQS list" where
  "sortByRetry ms = sort_key retryKey ms"

text \<open>
  \<^verbatim>\<open>scaleUpHandler\<close>, with \<^verbatim>\<open>scaleUp\<close> as a parameter: it returns the rejected message
  identifiers or throws.
\<close>

definition scaleUpHandler ::
  "(ActionRequestMessageSQS list \<Rightarrow> js_error + string list) \<Rightarrow> SQSRecord list
     \<Rightarrow> js_error + SQSBatchResponse" where
  "scaleUpHandler scaleUp records =
     (case sqsMessages records of
        Inl e \<Rightarrow> Inl e
      | Inr ms \<Rightarrow>
          (let sorted = sortByRetry ms in
           case scaleUp sorted of
             Inr rejectedMessageIds \<Rightarrow> Inr \<lparr>batchItemFailures = rejectedMessageIds\<rparr>
           | Inl (ScaleError n) \<Rightarrow> Inr \<lparr>batchItemFailures = toBatchItemFailures n sorted\<rparr>
           | Inl (Error msg) \<Rightarrow> Inr \<lparr>batchItemFailures = []\<rparr>))"

section \<open>The cloud adapter: createRunner and bootTimeExceeded\<close>

text \<open>
  The parameters of \<^verbatim>\<open>createRunner\<close> (\<^verbatim>\<open>RunnerInputParameters\<close>), with the fields the
  function reads. The nested \<^verbatim>\<open>ec2instanceCriteria\<close> is flattened.
\<close>

record RunnerInputParameters =
  runnerServiceConfig :: "string list"
  runnerType :: string
  runnerOwner :: string
  ssmTokenPath :: string
  launchTemplateName :: string
  subnets :: "string list"
  instanceTypes :: "string list"
  targetCapacityType :: string
  maxSpotPrice :: "string option"
  instanceAllocationStrategy :: string
  numberOfRunners :: "int option"
  amiIdSsmParameterName :: "string option"

record Tag =
  Key :: string
  Value :: string

record FleetLaunchTemplateOverridesRequest =
  SubnetId :: string
  InstanceType :: string
  ImageId :: "string option"

text \<open>The input of \<^verbatim>\<open>CreateFleetCommand\<close>, its nested objects flattened.\<close>

record CreateFleetCommandInput =
  LaunchTemplateName :: string
  Version :: string
  Overrides :: "FleetLaunchTemplateOverridesRequest list"
  MaxTotalPrice :: "string option"
  AllocationStrategy :: string
  TotalTargetCapacity :: int
  DefaultTargetCapacityType :: string
  ResourceType :: string
  Tags :: "Tag list"
  FleetType :: string

text \<open>
  The answer of the fleet call: \<^verbatim>\<open>Instances\<close> is an optional list of entries, each with
  an optional list \<^verbatim>\<open>InstanceIds\<close>; \<^verbatim>\<open>Errors\<close> is an optional list of entries, each with
  an optional \<^verbatim>\<open>ErrorCode\<close>.
\<close>

record CreateFleetResult =
  Instances :: "string list option list option"
  Errors :: "string option list option"

text \<open>
  The answers of the cloud services to \<^verbatim>\<open>createRunner\<close>: each call is answered or
  rejected (\<open>Inl\<close>, or \<open>Some\<close>, with the message of the rejection). \<open>getParameter\<close> answers
  with \<^verbatim>\<open>Parameter?.Value\<close>.
\<close>

record aws_answers =
  getParameter :: "string \<Rightarrow> string + string option"
  createFleet :: "CreateFleetCommandInput \<Rightarrow> string + CreateFleetResult"
  putSecureString :: "string \<Rightarrow> string \<Rightarrow> string option"

text \<open>
  What \<^verbatim>\<open>createRunner\<close> throws: its own two errors (this file constructs its
  \<^verbatim>\<open>ScaleError\<close> from a message), or the rejection of a call, which it rethrows or does
  not catch.
\<close>

datatype runner_error = ScaleErrorThrown string | ErrorThrown string | Rejected string

definition generateFleetOverrides ::
  "string list \<Rightarrow> string list \<Rightarrow> string option \<Rightarrow> FleetLaunchTemplateOverridesRequest list" where
  "generateFleetOverrides subnetIds instancesTypes amiId =
     concat (map (\<lambda>s. map (\<lambda>i. \<lparr>SubnetId = s, InstanceType = i, ImageId = amiId\<rparr>)
                           instancesTypes) subnetIds)"

text \<open>\<^verbatim>\<open>runnerParameters.numberOfRunners ? runnerParameters.numberOfRunners : 1\<close>\<close>

definition requestedRunners :: "RunnerInputParameters \<Rightarrow> int" where
  "requestedRunners p =
     (case numberOfRunners p of None \<Rightarrow> 1 | Some n \<Rightarrow> if n = 0 then 1 else n)"

definition createFleetCommand ::
  "RunnerInputParameters \<Rightarrow> string option \<Rightarrow> CreateFleetCommandInput" where
  "createFleetCommand p amiIdOverride =
     \<lparr>LaunchTemplateName = launchTemplateName p,
      Version = ''$Default'',
      Overrides = generateFleetOverrides (subnets p) (instanceTypes p) amiIdOverride,
      MaxTotalPrice = maxSpotPrice p,
      AllocationStrategy = instanceAllocationStrategy p,
      TotalTargetCapacity = requestedRunners p,
      DefaultTargetCapacityType = targetCapacityType p,
      ResourceType = ''instance'',
      Tags = [\<lparr>Key = ''ghr:Application'', Value = ''github-action-runner''\<rparr>,
              \<lparr>Key = ''ghr:created_by'',
               Value = (if requestedRunners p = 1 then ''scale-up-lambda'' else ''pool-lambda'')\<rparr>,
              \<lparr>Key = ''Type'', Value = runnerType p\<rparr>,
              \<lparr>Key = ''Owner'', Value = runnerOwner p\<rparr>],
      FleetType = ''instant''\<rparr>"

text \<open>
  \<^verbatim>\<open>fleet.Instances?.flatMap((i) => i.InstanceIds?.flatMap((j) => j) || []) || []\<close>
\<close>

definition fleetInstances :: "CreateFleetResult \<Rightarrow> string list" where
  "fleetInstances fleet =
     (case Instances fleet of
        None \<Rightarrow> []
      | Some entries \<Rightarrow> concat (map (\<lambda>i. case i of None \<Rightarrow> [] | Some ids \<Rightarrow> ids) entries))"

text \<open>\<^verbatim>\<open>fleet.Errors?.flatMap((e) => e.ErrorCode || '') || []\<close>\<close>

definition fleetErrors :: "CreateFleetResult \<Rightarrow> string list" where
  "fleetErrors fleet =
     (case Errors fleet of
        None \<Rightarrow> []
      | Some entries \<Rightarrow> map (\<lambda>e. case e of None \<Rightarrow> [] | Some c \<Rightarrow> c) entries)"

definition scaleErrors :: "string list" where
  "scaleErrors =
     [''UnfulfillableCapacity'',
      ''MaxSpotInstanceCountExceeded'',
      ''TargetCapacityLimitExceededException'',
      ''RequestLimitExceeded'',
      ''ResourceLimitExceeded'',
      ''MaxSpotInstanceCountExceeded'',
      ''MaxSpotFleetRequestCountExceeded'',
      ''InsufficientInstanceCapacity'']"

text \<open>The look-up of the image override, rethrown when it is rejected.\<close>

definition amiIdOverride :: "aws_answers \<Rightarrow> RunnerInputParameters \<Rightarrow> runner_error + string option" where
  "amiIdOverride aws p =
     (case amiIdSsmParameterName p of
        None \<Rightarrow> Inr None
      | Some n \<Rightarrow>
          (if n = [] then Inr None
           else (case getParameter aws n of
                   Inl e \<Rightarrow> Inl (Rejected e)
                 | Inr v \<Rightarrow> Inr v)))"

text \<open>
  The check of the answer of the fleet call: the instances created, or the error thrown
  when there is none.
\<close>

definition checkFleet :: "CreateFleetResult \<Rightarrow> runner_error + string list" where
  "checkFleet fleet =
     (let instances = fleetInstances fleet in
      if length instances = 0 then
        (let errors = fleetErrors fleet in
         if list_ex (\<lambda>e. e \<in> set scaleErrors) errors
         then Inl (ScaleErrorThrown ''Failed to create instance, create fleet failed.'')
         else Inl (ErrorThrown ''Create fleet failed, no instance created.''))
      else Inr instances)"

text \<open>\<^verbatim>\<open>Array.prototype.join\<close>\<close>

fun joinWith :: "string \<Rightarrow> string list \<Rightarrow> string" where
  "joinWith sep [] = []"
| "joinWith sep [x] = x"
| "joinWith sep (x # y # ys) = x @ sep @ joinWith sep (y # ys)"

text \<open>
  The last loop of \<^verbatim>\<open>createRunner\<close>: one secret parameter \<open>(Name, Value)\<close> per instance,
  written in turn; a rejected write is not caught.
\<close>

fun putConfigs ::
  "aws_answers \<Rightarrow> RunnerInputParameters \<Rightarrow> string list \<Rightarrow> runner_error + (string \<times> string) list" where
  "putConfigs aws p [] = Inr []"
| "putConfigs aws p (instance # rest) =
     (case putSecureString aws (ssmTokenPath p @ ''/'' @ instance)
             (joinWith '' '' (runnerServiceConfig p)) of
        Some e \<Rightarrow> Inl (Rejected e)
      | None \<Rightarrow>
          (case putConfigs aws p rest of
             Inl e \<Rightarrow> Inl e
           | Inr written \<Rightarrow>
               Inr ((ssmTokenPath p @ ''/'' @ instance, joinWith '' '' (runnerServiceConfig p))
                    # written)))"

text \<open>
  \<^verbatim>\<open>createRunner\<close>: the fleet commands it has sent, and either the error it throws or
  the secret parameters it has written.
\<close>

definition createRunner ::
  "aws_answers \<Rightarrow> RunnerInputParameters
     \<Rightarrow> CreateFleetCommandInput list \<times> (runner_error + (string \<times> string) list)" where
  "createRunner aws p =
     (case amiIdOverride aws p of
        Inl e \<Rightarrow> ([], Inl e)
      | Inr ami \<Rightarrow>
          (let createFleetCommand = createFleetCommand p ami in
           case createFleet aws createFleetCommand of
             Inl e \<Rightarrow> ([createFleetCommand], Inl (Rejected e))
           | Inr fleet \<Rightarrow>
               ([createFleetCommand],
                case checkFleet fleet of
                  Inl e \<Rightarrow> Inl e
                | Inr instances \<Rightarrow> putConfigs aws p instances)))"

text \<open>
  An instance as \<^verbatim>\<open>listEC2Runners\<close> returns it (\<^verbatim>\<open>RunnerInfo\<close>). Times are
  milliseconds since the epoch, as \<^verbatim>\<open>Date\<close> and \<^verbatim>\<open>moment\<close> compare them.
\<close>

record RunnerInfo =
  instanceId :: string
  launchTime :: "int option"
  owner :: string
  type :: string

text \<open>
  \<^verbatim>\<open>bootTimeExceeded\<close>: \<^verbatim>\<open>moment(undefined)\<close> is the current time. The current time and
  the configured minutes (\<^verbatim>\<open>RUNNER_BOOT_TIME_IN_MINUTES\<close>) are parameters.
\<close>

definition bootTimeExceeded :: "int \<Rightarrow> int \<Rightarrow> 'a RunnerInfo_scheme \<Rightarrow> bool" where
  "bootTimeExceeded now runnerBootTimeInMinutes ec2Runner =
     (let launchTimePlusBootTime =
            (case launchTime ec2Runner of None \<Rightarrow> now | Some t \<Rightarrow> t)
              + runnerBootTimeInMinutes * 60000
      in launchTimePlusBootTime < now)"

section \<open>The pool top-up loop\<close>

text \<open>A runner as the upstream service lists it.\<close>

record GhRunner =
  ghId :: int
  name :: string
  status :: string
  busy :: bool

text \<open>
  \<^verbatim>\<open>runnerStatus\<close>: the \<^verbatim>\<open>Map\<close> from runner name to \<^verbatim>\<open>{busy, status}\<close>; a later runner of
  the same name replaces an earlier one.
\<close>

fun runnerStatusMap :: "GhRunner list \<Rightarrow> (string \<rightharpoonup> bool \<times> string) \<Rightarrow> (string \<rightharpoonup> bool \<times> string)" where
  "runnerStatusMap [] m = m"
| "runnerStatusMap (r # rs) m = runnerStatusMap rs (m(name r \<mapsto> (busy r, status r)))"

text \<open>The loop that counts \<^verbatim>\<open>numberOfRunnersInPool\<close>, branch by branch.\<close>

fun countPool ::
  "(string \<rightharpoonup> bool \<times> string) \<Rightarrow> int \<Rightarrow> int \<Rightarrow> 'a RunnerInfo_scheme list \<Rightarrow> int \<Rightarrow> int" where
  "countPool runnerStatus now bootMinutes [] numberOfRunnersInPool = numberOfRunnersInPool"
| "countPool runnerStatus now bootMinutes (ec2Instance # rest) numberOfRunnersInPool =
     (if map_option fst (runnerStatus (instanceId ec2Instance)) = Some False
         \<and> map_option snd (runnerStatus (instanceId ec2Instance)) = Some ''online''
      then countPool runnerStatus now bootMinutes rest (numberOfRunnersInPool + 1)
      else if runnerStatus (instanceId ec2Instance) \<noteq> None
      then countPool runnerStatus now bootMinutes rest numberOfRunnersInPool
      else if \<not> bootTimeExceeded now bootMinutes ec2Instance
      then countPool runnerStatus now bootMinutes rest (numberOfRunnersInPool + 1)
      else countPool runnerStatus now bootMinutes rest numberOfRunnersInPool)"

text \<open>
  \<^verbatim>\<open>adjust\<close>: the calls of \<^verbatim>\<open>createRunners\<close> it makes, each given by its
  \<^verbatim>\<open>numberOfRunners\<close>. \<open>runners\<close> is the upstream list for the owner, \<open>ec2runners\<close> the
  managed instances in state running.
\<close>

definition adjust :: "int \<Rightarrow> GhRunner list \<Rightarrow> 'a RunnerInfo_scheme list \<Rightarrow> int \<Rightarrow> int \<Rightarrow> int list" where
  "adjust poolSize runners ec2runners now bootMinutes =
     (let runnerStatus = runnerStatusMap runners Map.empty;
          numberOfRunnersInPool = countPool runnerStatus now bootMinutes ec2runners 0;
          topUp = poolSize - numberOfRunnersInPool
      in if topUp > 0 then [topUp] else [])"

text \<open>
  The classification of the specification: an instance is in the pool when it is
  present upstream, online and not busy, or absent upstream and not past its boot time.
\<close>

definition inPool :: "GhRunner list \<Rightarrow> int \<Rightarrow> int \<Rightarrow> 'a RunnerInfo_scheme \<Rightarrow> bool" where
  "inPool runners now bootMinutes ec2Instance =
     (case runnerStatusMap runners Map.empty (instanceId ec2Instance) of
        Some (b, s) \<Rightarrow> s = ''online'' \<and> \<not> b
      | None \<Rightarrow> \<not> bootTimeExceeded now bootMinutes ec2Instance)"

section \<open>The scale-down reaper\<close>


text \<open>
  The answers of the upstream service during one invocation. \<open>listRunners\<close> is the list
  of the owner's runners (cached per owner by \<^verbatim>\<open>listGitHubRunners\<close>, so one answer per
  owner); \<open>getRunner\<close> is the query of one runner, \<open>Inr None\<close> for the answer 404, which
  \<^verbatim>\<open>getGitHubSelfHostedRunnerState\<close> turns into \<^verbatim>\<open>null\<close>, and \<open>Inl\<close> for any other failure,
  which it rethrows; \<open>deleteRunner\<close> answers with the HTTP status or is rejected.
  The first argument is the owner of the instance.
\<close>

record github_answers =
  listRunners :: "string \<Rightarrow> js_error + GhRunner list"
  getRunner :: "string \<Rightarrow> int \<Rightarrow> js_error + GhRunner option"
  deleteRunner :: "string \<Rightarrow> int \<Rightarrow> js_error + int"

text \<open>
  The answer of the cloud to the termination of an instance: whether the call is
  rejected (\<open>Some\<close> the error). The setting and the clearing of the orphan tag catch
  their failures (\<^verbatim>\<open>markOrphan\<close>, \<^verbatim>\<open>unMarkOrphan\<close>), so the answers to them do not matter.
\<close>

record ec2_answers =
  terminateInstances :: "string \<Rightarrow> js_error option"

text \<open>
  The calls that change something, in the order they are issued: the termination of an
  instance, the de-registration of an upstream runner of an owner, and the setting and
  the clearing of the orphan tag.
\<close>

datatype effect =
    Terminate string
  | Deregister string int
  | MarkOrphan string
  | UnmarkOrphan string

definition getGitHubSelfHostedRunnerState ::
  "github_answers \<Rightarrow> 'a RunnerInfo_scheme \<Rightarrow> int \<Rightarrow> js_error + GhRunner option" where
  "getGitHubSelfHostedRunnerState client ec2runner ghRunnerId =
     getRunner client (owner ec2runner) ghRunnerId"

definition getGitHubRunnerBusyState ::
  "github_answers \<Rightarrow> 'a RunnerInfo_scheme \<Rightarrow> int \<Rightarrow> js_error + bool" where
  "getGitHubRunnerBusyState client ec2runner ghRunnerId =
     (case getGitHubSelfHostedRunnerState client ec2runner ghRunnerId of
        Inl e \<Rightarrow> Inl e
      | Inr None \<Rightarrow> Inr False
      | Inr (Some state) \<Rightarrow> Inr (busy state))"

text \<open>
  \<^verbatim>\<open>runnerMinimumTimeExceeded\<close>, with the current time and the configured minutes
  (\<^verbatim>\<open>MINIMUM_RUNNING_TIME_IN_MINUTES\<close>) as parameters.
\<close>

definition runnerMinimumTimeExceeded :: "int \<Rightarrow> int \<Rightarrow> 'a RunnerInfo_scheme \<Rightarrow> bool" where
  "runnerMinimumTimeExceeded now minimumRunningTimeInMinutes runner =
     (let launchTimePlusMinimum =
            (case launchTime runner of None \<Rightarrow> now | Some t \<Rightarrow> t)
              + minimumRunningTimeInMinutes * 60000
      in launchTimePlusMinimum < now)"

text \<open>
  \<^verbatim>\<open>Promise.all\<close> over the answers of calls that have all been issued: the answers, or
  the first rejection.
\<close>

fun promiseAll :: "(js_error + 'a) list \<Rightarrow> js_error + 'a list" where
  "promiseAll [] = Inr []"
| "promiseAll (Inl e # rest) = Inl e"
| "promiseAll (Inr v # rest) = (case promiseAll rest of Inl e \<Rightarrow> Inl e | Inr vs \<Rightarrow> Inr (v # vs))"

text \<open>
  \<^verbatim>\<open>removeRunner\<close>: the effects it issues. Every failure inside is caught and logged,
  that of the termination too, so the answer of the cloud does not change the effects.
  When the runners are all idle, the de-registration of every id is issued before the
  statuses are looked at.
\<close>

definition removeRunner ::
  "github_answers \<Rightarrow> ec2_answers \<Rightarrow> 'a RunnerInfo_scheme \<Rightarrow> int list \<Rightarrow> effect list" where
  "removeRunner githubAppClient ec2 ec2runner ghRunnerIds =
     (case promiseAll (map (getGitHubRunnerBusyState githubAppClient ec2runner) ghRunnerIds) of
        Inl e \<Rightarrow> []
      | Inr states \<Rightarrow>
          if list_all (\<lambda>busy. busy = False) states then
            map (Deregister (owner ec2runner)) ghRunnerIds @
            (case promiseAll (map (deleteRunner githubAppClient (owner ec2runner)) ghRunnerIds) of
               Inl e \<Rightarrow> []
             | Inr statuses \<Rightarrow>
                 if list_all (\<lambda>status. status = 204) statuses
                 then [Terminate (instanceId ec2runner)]
                 else [])
          else [])"

text \<open>
  The comparators of the eviction strategies. \<^verbatim>\<open>Array.prototype.sort\<close> puts \<open>a\<close> after
  \<open>b\<close> when the comparator is positive.
\<close>

definition oldestFirstStrategy :: "'a RunnerInfo_scheme \<Rightarrow> 'a RunnerInfo_scheme \<Rightarrow> int" where
  "oldestFirstStrategy a b =
     (case launchTime a of
        None \<Rightarrow> 1
      | Some ta \<Rightarrow>
          (case launchTime b of
             None \<Rightarrow> 1
           | Some tb \<Rightarrow> if ta < tb then 1 else if ta > tb then - 1 else 0))"

definition newestFirstStrategy :: "'a RunnerInfo_scheme \<Rightarrow> 'a RunnerInfo_scheme \<Rightarrow> int" where
  "newestFirstStrategy a b = oldestFirstStrategy a b * - 1"

text \<open>
  \<^verbatim>\<open>Array.prototype.sort\<close> with a comparator. The language (ECMA-262) fixes its result
  only when the comparator is consistent on the elements of the array: \<open>cmp a a = 0\<close>,
  the relation \<open>cmp a b = 0\<close> is symmetric and transitive, and the relations
  \<open>cmp a b < 0\<close> and \<open>cmp a b > 0\<close> are transitive. The result is then the stable sort of
  the array, which is computed here by insertion from the right.
\<close>

definition consistentComparator :: "('a \<Rightarrow> 'a \<Rightarrow> int) \<Rightarrow> 'a list \<Rightarrow> bool" where
  "consistentComparator cmp xs =
     (\<forall>a \<in> set xs. cmp a a = 0 \<and>
        (\<forall>b \<in> set xs. (cmp a b = 0 \<longrightarrow> cmp b a = 0) \<and>
           (\<forall>c \<in> set xs.
              (cmp a b = 0 \<and> cmp b c = 0 \<longrightarrow> cmp a c = 0)
              \<and> (cmp a b < 0 \<and> cmp b c < 0 \<longrightarrow> cmp a c < 0)
              \<and> (cmp a b > 0 \<and> cmp b c > 0 \<longrightarrow> cmp a c > 0))))"

fun insertBy :: "('a \<Rightarrow> 'a \<Rightarrow> int) \<Rightarrow> 'a \<Rightarrow> 'a list \<Rightarrow> 'a list" where
  "insertBy cmp x [] = [x]"
| "insertBy cmp x (y # ys) = (if cmp x y \<le> 0 then x # y # ys else y # insertBy cmp x ys)"

definition stableSort :: "('a \<Rightarrow> 'a \<Rightarrow> int) \<Rightarrow> 'a list \<Rightarrow> 'a list" where
  "stableSort cmp xs = foldr (insertBy cmp) xs []"

text \<open>
  When the comparator is not consistent, the order of the result is left to the
  implementation of the language, which still returns the elements of the array. Both
  comparators above are inconsistent as soon as an instance has no launch time (they
  return 1, or -1, in both directions). So the pass has the engine as a parameter: for
  every comparator and array, a rearrangement of the array.
\<close>

typedef 'a sort_engine =
  "{f :: ('a \<Rightarrow> 'a \<Rightarrow> int) \<Rightarrow> 'a list \<Rightarrow> 'a list.
      \<forall>cmp xs x. count_list (f cmp xs) x = count_list xs x}"
  by (rule exI [of _ "\<lambda>cmp xs. xs"]) simp

definition arraySort :: "'a sort_engine \<Rightarrow> ('a \<Rightarrow> 'a \<Rightarrow> int) \<Rightarrow> 'a list \<Rightarrow> 'a list" where
  "arraySort engine cmp xs =
     (if consistentComparator cmp xs then stableSort cmp xs
      else Rep_sort_engine engine cmp xs)"

text \<open>The elements of \<^verbatim>\<open>new Set(xs)\<close> in iteration order: first occurrences.\<close>

definition setOrder :: "'a list \<Rightarrow> 'a list" where
  "setOrder xs = rev (remdups (rev xs))"

text \<open>\<^verbatim>\<open>String.prototype.endsWith\<close>\<close>

definition endsWith :: "string \<Rightarrow> string \<Rightarrow> bool" where
  "endsWith s suffix =
     (length suffix \<le> length s \<and> drop (length s - length suffix) s = suffix)"

text \<open>
  The configuration of a pass of \<^verbatim>\<open>evaluateAndRemoveRunners\<close>: the current time, the two
  thresholds of the environment, and what \<^verbatim>\<open>getIdleRunnerCount\<close> and
  \<^verbatim>\<open>getEvictionStrategy\<close> return for the scale-down configuration (their file is not among
  the sources).
\<close>

record pass_config =
  timeNow :: int
  minimumRunningTimeInMinutes :: int
  runnerBootTimeInMinutes :: int
  idleRunnerCount :: int
  evictionStrategy :: string

text \<open>
  The state of the pass: the effects issued so far, \<^verbatim>\<open>idleCounter\<close>, and the error that
  has ended the pass, if any (a failure to list the runners of an owner is not caught
  in \<^verbatim>\<open>evaluateAndRemoveRunners\<close>).
\<close>

record pass_state =
  effects :: "effect list"
  idleCounter :: int
  thrown :: "js_error option"

definition matchingRunners :: "GhRunner list \<Rightarrow> 'a RunnerInfo_scheme \<Rightarrow> GhRunner list" where
  "matchingRunners ghRunners ec2Runner =
     filter (\<lambda>runner. endsWith (name runner) (instanceId ec2Runner)) ghRunners"

text \<open>The body of the inner loop of \<^verbatim>\<open>evaluateAndRemoveRunners\<close>, for one instance.\<close>

definition evaluateRunner ::
  "github_answers \<Rightarrow> ec2_answers \<Rightarrow> pass_config \<Rightarrow> pass_state \<Rightarrow> 'a RunnerInfo_scheme \<Rightarrow> pass_state" where
  "evaluateRunner gh ec2 cfg st ec2Runner =
     (if thrown st \<noteq> None then st
      else
        (case listRunners gh (owner ec2Runner) of
           Inl e \<Rightarrow> st\<lparr>thrown := Some e\<rparr>
         | Inr ghRunners \<Rightarrow>
             (let ghRunnersFiltered = matchingRunners ghRunners ec2Runner in
              if length ghRunnersFiltered \<noteq> 0 then
                (if runnerMinimumTimeExceeded (timeNow cfg) (minimumRunningTimeInMinutes cfg) ec2Runner then
                   (if idleCounter st > 0 then st\<lparr>idleCounter := idleCounter st - 1\<rparr>
                    else st\<lparr>effects := effects st @
                              removeRunner gh ec2 ec2Runner (map ghId ghRunnersFiltered)\<rparr>)
                 else st)
              else if bootTimeExceeded (timeNow cfg) (runnerBootTimeInMinutes cfg) ec2Runner
              then st\<lparr>effects := effects st @ [MarkOrphan (instanceId ec2Runner)]\<rparr>
              else st)))"

text \<open>The instances of one owner, in the order of the eviction strategy.\<close>

definition ec2RunnersFiltered ::
  "'a RunnerInfo_scheme sort_engine \<Rightarrow> pass_config \<Rightarrow> 'a RunnerInfo_scheme list \<Rightarrow> string
     \<Rightarrow> 'a RunnerInfo_scheme list" where
  "ec2RunnersFiltered engine cfg ec2Runners ownerTag =
     arraySort engine
       (if evictionStrategy cfg = ''oldest_first'' then oldestFirstStrategy
        else newestFirstStrategy)
       (filter (\<lambda>runner. owner runner = ownerTag) ec2Runners)"

text \<open>
  \<^verbatim>\<open>evaluateAndRemoveRunners\<close>: the outer loop over the owners, the inner loop over the
  instances of the owner, with the state passed along.
\<close>

definition evaluateAndRemoveRunners ::
  "'a RunnerInfo_scheme sort_engine \<Rightarrow> github_answers \<Rightarrow> ec2_answers \<Rightarrow> pass_config
     \<Rightarrow> 'a RunnerInfo_scheme list \<Rightarrow> pass_state" where
  "evaluateAndRemoveRunners engine gh ec2 cfg ec2Runners =
     foldl (\<lambda>st ownerTag. foldl (evaluateRunner gh ec2 cfg) st
                             (ec2RunnersFiltered engine cfg ec2Runners ownerTag))
       \<lparr>effects = [], idleCounter = idleRunnerCount cfg, thrown = None\<rparr>
       (setOrder (map owner ec2Runners))"

text \<open>
  The order in which the pass visits the instances, and the state it starts from.
\<close>

definition evictionOrder ::
  "'a RunnerInfo_scheme sort_engine \<Rightarrow> pass_config \<Rightarrow> 'a RunnerInfo_scheme list
     \<Rightarrow> 'a RunnerInfo_scheme list" where
  "evictionOrder engine cfg ec2Runners =
     concat (map (ec2RunnersFiltered engine cfg ec2Runners) (setOrder (map owner ec2Runners)))"

definition passStart :: "pass_config \<Rightarrow> pass_state" where
  "passStart cfg = \<lparr>effects = [], idleCounter = idleRunnerCount cfg, thrown = None\<rparr>"

text \<open>
  The conditions on an instance under which its removal goes through to the
  termination: the list of the owner's runners is answered and has runners whose name
  ends with the instance id, the minimum running time is exceeded, and for every such
  runner the direct busy query answers not busy (\<^verbatim>\<open>getGitHubRunnerBusyState\<close>, which
  takes the answer 404 for not busy) and the de-registration answers 204.
\<close>

definition terminable :: "github_answers \<Rightarrow> pass_config \<Rightarrow> 'a RunnerInfo_scheme \<Rightarrow> bool" where
  "terminable gh cfg r =
     (case listRunners gh (owner r) of
        Inl e \<Rightarrow> False
      | Inr ghRunners \<Rightarrow>
          matchingRunners ghRunners r \<noteq> []
          \<and> runnerMinimumTimeExceeded (timeNow cfg) (minimumRunningTimeInMinutes cfg) r
          \<and> list_all (\<lambda>g. getGitHubRunnerBusyState gh r (ghId g) = Inr False
                         \<and> deleteRunner gh (owner r) (ghId g) = Inr 204)
                     (matchingRunners ghRunners r))"

text \<open>The launch time as a sorting key, for instances that have one.\<close>

definition launchKey :: "'a RunnerInfo_scheme \<Rightarrow> int" where
  "launchKey r = (case launchTime r of None \<Rightarrow> 0 | Some t \<Rightarrow> t)"





section \<open>The scale-up dispatcher\<close>

text \<open>
  The settings that \<^verbatim>\<open>scaleUp\<close> reads from the environment and decides by. The others
  (labels, subnets, instance types, \<dots>) are handed to \<^verbatim>\<open>createRunners\<close> unchanged.
\<close>

record scale_up_config =
  enableOrgLevel :: bool
  maximumRunners :: int
  ephemeralEnabled :: bool
  enableJobQueuedCheck :: bool

text \<open>
  The answers of the services to \<^verbatim>\<open>scaleUp\<close>: the authentication of the app; the
  creation of the client of an installation (\<^verbatim>\<open>getInstallationId\<close>,
  \<^verbatim>\<open>createGithubInstallationAuth\<close>, \<^verbatim>\<open>createOctokitClient\<close>) for the message that opens a
  group; the status of the job of a message; the instances of a group; and the outcome of
  \<^verbatim>\<open>createRunners\<close> for a group and a number of runners, the instances created or the
  error thrown.
\<close>

record scale_up_answers =
  appClient :: "js_error option"
  installationClient :: "ActionRequestMessageSQS \<Rightarrow> js_error option"
  jobStatus :: "ActionRequestMessageSQS \<Rightarrow> js_error + string"
  listEC2Runners :: "string \<Rightarrow> js_error + RunnerInfo list"
  createRunners :: "string \<Rightarrow> int \<Rightarrow> js_error + string list"

definition isValidRepoOwnerTypeIfOrgLevelEnabled :: "ActionRequestMessageSQS \<Rightarrow> bool \<Rightarrow> bool" where
  "isValidRepoOwnerTypeIfOrgLevelEnabled payload orgLevel =
     (\<not> (orgLevel \<and> repoOwnerType payload \<noteq> ''Organization''))"

definition isJobQueued :: "scale_up_answers \<Rightarrow> ActionRequestMessageSQS \<Rightarrow> js_error + bool" where
  "isJobQueued answers payload =
     (if eventType payload = ''workflow_job'' then
        (case jobStatus answers payload of
           Inl e \<Rightarrow> Inl e
         | Inr s \<Rightarrow> Inr (s = ''queued''))
      else Inl (Error (''Event '' @ eventType payload @ '' is not supported'')))"

text \<open>
  \<^verbatim>\<open>validMessages\<close> is a \<^verbatim>\<open>Map\<close> from the group key to the messages of the group; it is
  iterated in the order of insertion, so it is a list of pairs here.
\<close>

fun pushMessage ::
  "string \<Rightarrow> ActionRequestMessageSQS \<Rightarrow> (string \<times> ActionRequestMessageSQS list) list
     \<Rightarrow> (string \<times> ActionRequestMessageSQS list) list" where
  "pushMessage key payload [] = [(key, [payload])]"
| "pushMessage key payload ((k, messages) # rest) =
     (if k = key then (k, messages @ [payload]) # rest
      else (k, messages) # pushMessage key payload rest)"

definition groupKey :: "scale_up_config \<Rightarrow> ActionRequestMessageSQS \<Rightarrow> string" where
  "groupKey cfg payload =
     (if enableOrgLevel cfg then repositoryOwner payload
      else repositoryOwner payload @ ''/'' @ repositoryName payload)"

text \<open>The first loop of \<^verbatim>\<open>scaleUp\<close>, over the payloads.\<close>

fun validateMessages ::
  "scale_up_config \<Rightarrow> scale_up_answers \<Rightarrow> ActionRequestMessageSQS list
     \<Rightarrow> (string \<times> ActionRequestMessageSQS list) list \<Rightarrow> string list
     \<Rightarrow> js_error + (string \<times> ActionRequestMessageSQS list) list \<times> string list" where
  "validateMessages cfg answers [] validMessages invalidMessages =
     Inr (validMessages, invalidMessages)"
| "validateMessages cfg answers (payload # rest) validMessages invalidMessages =
     (if ephemeralEnabled cfg \<and> eventType payload \<noteq> ''workflow_job''
      then validateMessages cfg answers rest validMessages (invalidMessages @ [messageId payload])
      else if \<not> isValidRepoOwnerTypeIfOrgLevelEnabled payload (enableOrgLevel cfg)
      then validateMessages cfg answers rest validMessages invalidMessages
      else if map_of validMessages (groupKey cfg payload) = None
      then (case installationClient answers payload of
              Some e \<Rightarrow> Inl e
            | None \<Rightarrow> validateMessages cfg answers rest
                        (pushMessage (groupKey cfg payload) payload validMessages) invalidMessages)
      else validateMessages cfg answers rest
             (pushMessage (groupKey cfg payload) payload validMessages) invalidMessages)"

text \<open>The loop over the messages of a group that counts \<^verbatim>\<open>scaleUp\<close>.\<close>

fun countQueued ::
  "scale_up_config \<Rightarrow> scale_up_answers \<Rightarrow> ActionRequestMessageSQS list \<Rightarrow> int \<Rightarrow> js_error + int" where
  "countQueued cfg answers [] scaleUp = Inr scaleUp"
| "countQueued cfg answers (message # rest) scaleUp =
     (if enableJobQueuedCheck cfg then
        (case isJobQueued answers message of
           Inl e \<Rightarrow> Inl e
         | Inr queued \<Rightarrow>
             if \<not> queued then countQueued cfg answers rest scaleUp
             else countQueued cfg answers rest (scaleUp + 1))
      else countQueued cfg answers rest (scaleUp + 1))"

text \<open>
  \<^verbatim>\<open>xs.slice(0, n)\<close> for an integer \<open>n\<close>: a negative end counts from the end of the
  array.
\<close>

definition slice0 :: "'a list \<Rightarrow> int \<Rightarrow> 'a list" where
  "slice0 xs n =
     (if n < 0 then take (nat (max (int (length xs) + n) 0)) xs else take (nat n) xs)"

text \<open>
  The body of the loop over the groups (the key of the group is \<open>scope\<close> here): the
  calls of \<^verbatim>\<open>createRunners\<close> it makes (group and number of runners), and the error it
  throws or the message identifiers it adds to \<^verbatim>\<open>invalidMessages\<close>. \<^verbatim>\<open>messages.splice(0, missingInstanceCount)\<close> takes the first
  messages out of the list of the group, for the later \<^verbatim>\<open>slice\<close>.
\<close>

definition scaleGroup ::
  "scale_up_config \<Rightarrow> scale_up_answers \<Rightarrow> string \<times> ActionRequestMessageSQS list
     \<Rightarrow> (string \<times> int) list \<times> (js_error + string list)" where
  "scaleGroup cfg answers entry =
     (case entry of (scope, messages) \<Rightarrow>
      case countQueued cfg answers messages 0 of
        Inl e \<Rightarrow> ([], Inl e)
      | Inr scaleUp \<Rightarrow>
          if scaleUp = 0 then ([], Inr [])
          else
            (case (if maximumRunners cfg = - 1 then Inr 0
                   else (case listEC2Runners answers scope of
                           Inl e \<Rightarrow> Inl e
                         | Inr runners \<Rightarrow> Inr (int (length runners)))) of
               Inl e \<Rightarrow> ([], Inl e)
             | Inr currentRunners \<Rightarrow>
                 (let newRunners =
                        (if maximumRunners cfg = - 1 then scaleUp
                         else min scaleUp (maximumRunners cfg - currentRunners));
                      missingInstanceCount = max 0 (scaleUp - newRunners);
                      spliced = (if missingInstanceCount > 0 \<and> ephemeralEnabled cfg
                                 then take (nat missingInstanceCount) messages else []);
                      remaining = (if missingInstanceCount > 0 \<and> ephemeralEnabled cfg
                                   then drop (nat missingInstanceCount) messages else messages)
                  in if missingInstanceCount > 0 \<and> missingInstanceCount = scaleUp
                     then ([], Inr (map messageId spliced))
                     else
                       (case createRunners answers scope newRunners of
                          Inl e \<Rightarrow> ([(scope, newRunners)], Inl e)
                        | Inr instances \<Rightarrow>
                            ([(scope, newRunners)],
                             Inr (map messageId spliced @
                                  (if int (length instances) \<noteq> newRunners
                                   then map messageId
                                          (slice0 remaining (newRunners - int (length instances)))
                                   else [])))))))"

text \<open>The loop over the groups, with \<^verbatim>\<open>invalidMessages\<close> passed along.\<close>

fun scaleGroups ::
  "scale_up_config \<Rightarrow> scale_up_answers \<Rightarrow> (string \<times> ActionRequestMessageSQS list) list
     \<Rightarrow> string list \<Rightarrow> (string \<times> int) list \<times> (js_error + string list)" where
  "scaleGroups cfg answers [] invalidMessages = ([], Inr invalidMessages)"
| "scaleGroups cfg answers (entry # rest) invalidMessages =
     (case scaleGroup cfg answers entry of
        (calls, Inl e) \<Rightarrow> (calls, Inl e)
      | (calls, Inr rejected) \<Rightarrow>
          (case scaleGroups cfg answers rest (invalidMessages @ rejected) of
             (calls', result) \<Rightarrow> (calls @ calls', result)))"

text \<open>
  \<^verbatim>\<open>scaleUp\<close>: the calls of \<^verbatim>\<open>createRunners\<close> made, and the rejected message identifiers
  returned or the error thrown.
\<close>

definition scaleUp ::
  "scale_up_config \<Rightarrow> scale_up_answers \<Rightarrow> ActionRequestMessageSQS list
     \<Rightarrow> (string \<times> int) list \<times> (js_error + string list)" where
  "scaleUp cfg answers payloads =
     (case appClient answers of
        Some e \<Rightarrow> ([], Inl e)
      | None \<Rightarrow>
          (case validateMessages cfg answers payloads [] [] of
             Inl e \<Rightarrow> ([], Inl e)
           | Inr (validMessages, invalidMessages) \<Rightarrow>
               scaleGroups cfg answers validMessages invalidMessages))"

subsection \<open>The capacity rule in the words of the specification\<close>

text \<open>
  The quantities of the specification's capacity rule, to compare \<^verbatim>\<open>scaleUp\<close> with. A
  message survives the queued filter when the check is disabled or the status of its
  job is answered with \<^verbatim>\<open>queued\<close>; \<open>wantOf\<close> counts the surviving messages of a scope,
  \<open>currentOf\<close> is the size of the instance inventory of the scope, and \<open>newCountOf\<close> is
  \<open>min(want, max(0, max-runners - current))\<close>.
\<close>

definition surviving :: "scale_up_config \<Rightarrow> scale_up_answers \<Rightarrow> ActionRequestMessageSQS \<Rightarrow> bool" where
  "surviving cfg answers message =
     (enableJobQueuedCheck cfg \<longrightarrow> isJobQueued answers message = Inr True)"

definition wantOf ::
  "scale_up_config \<Rightarrow> scale_up_answers \<Rightarrow> ActionRequestMessageSQS list \<Rightarrow> int" where
  "wantOf cfg answers messages = int (length (filter (surviving cfg answers) messages))"

definition currentOf :: "scale_up_answers \<Rightarrow> string \<Rightarrow> int" where
  "currentOf answers scope =
     (case listEC2Runners answers scope of
        Inl e \<Rightarrow> 0
      | Inr runners \<Rightarrow> int (length runners))"

definition newCountOf ::
  "scale_up_config \<Rightarrow> scale_up_answers \<Rightarrow> string \<Rightarrow> ActionRequestMessageSQS list \<Rightarrow> int" where
  "newCountOf cfg answers scope messages =
     min (wantOf cfg answers messages) (max 0 (maximumRunners cfg - currentOf answers scope))"

text \<open>
  The identifiers rejected for the capacity: in ephemeral mode those of the first
  \<open>want - newCount\<close> surviving messages of the scope, none otherwise.
\<close>

definition capacityRejected ::
  "scale_up_config \<Rightarrow> scale_up_answers \<Rightarrow> string \<Rightarrow> ActionRequestMessageSQS list \<Rightarrow> string list" where
  "capacityRejected cfg answers scope messages =
     (if ephemeralEnabled cfg
      then map messageId
             (take (nat (wantOf cfg answers messages - newCountOf cfg answers scope messages))
                (filter (surviving cfg answers) messages))
      else [])"

text \<open>
  The identifiers rejected because \<^verbatim>\<open>createRunners\<close> returned another number of instances
  than requested: those of \<^verbatim>\<open>messages.slice(0, failedInstanceCount)\<close>, on the list of the
  scope without the messages taken out for the capacity.
\<close>

definition shortfallRejected ::
  "scale_up_config \<Rightarrow> scale_up_answers \<Rightarrow> string \<Rightarrow> ActionRequestMessageSQS list \<Rightarrow> string list" where
  "shortfallRejected cfg answers scope messages =
     (let newCount = newCountOf cfg answers scope messages;
          remaining = (if ephemeralEnabled cfg
                       then drop (nat (wantOf cfg answers messages - newCount)) messages
                       else messages)
      in if newCount = 0 then []
         else (case createRunners answers scope newCount of
                 Inl e \<Rightarrow> []
               | Inr instances \<Rightarrow>
                   if int (length instances) \<noteq> newCount
                   then map messageId (slice0 remaining (newCount - int (length instances)))
                   else []))"

subsection \<open>Just-in-time configuration\<close>

text \<open>
  The part of \<^verbatim>\<open>CreateGitHubRunnerConfig\<close> that \<^verbatim>\<open>createJitConfig\<close> reads.
\<close>

record jit_config =
  jitRunnerLabels :: string
  runnerGroup :: "string option"
  runnerNamePrefix :: string
  jitRunnerOwner :: string
  jitRunnerType :: string
  jitSsmTokenPath :: string
  ssmConfigPath :: string

record RunnerGroup =
  rgName :: string
  rgId :: int

record EphemeralRunnerConfig =
  runnerName :: string
  runnerGroupId :: int
  runnerLabels :: "string list"

text \<open>
  The answers of the services to \<^verbatim>\<open>createJitConfig\<close>: the read of a parameter (the value,
  \<open>None\<close> for \<^verbatim>\<open>undefined\<close>, or the rejection); the runner groups of an organisation;
  the upstream generation of the configuration for a runner type, an owner and a
  request, with the runner id and the encoded configuration; whether the cloud rejects
  the tagging of an instance; whether the parameter store rejects a write. The
  conversions between numbers and their texts, \<^verbatim>\<open>parseInt\<close> and \<^verbatim>\<open>toString\<close>, are
  parameters as well.
\<close>

record jit_answers =
  readParameter :: "string \<Rightarrow> js_error + string option"
  listRunnerGroups :: "string \<Rightarrow> js_error + RunnerGroup list"
  generateRunnerJitconfig :: "string \<Rightarrow> string \<Rightarrow> EphemeralRunnerConfig \<Rightarrow> js_error + int \<times> string"
  textToInt :: "string \<Rightarrow> int"
  idToString :: "int \<Rightarrow> string"
  tagInstance :: "string \<Rightarrow> Tag list \<Rightarrow> js_error option"
  putParameter :: "string \<Rightarrow> string \<Rightarrow> js_error option"

definition getRunnerGroupByName :: "jit_config \<Rightarrow> jit_answers \<Rightarrow> string \<Rightarrow> js_error + int" where
  "getRunnerGroupByName cfg answers wanted =
     (case listRunnerGroups answers (jitRunnerOwner cfg) of
        Inl e \<Rightarrow> Inl e
      | Inr runnerGroups \<Rightarrow>
          (case find (\<lambda>g. rgName g = wanted) runnerGroups of
             None \<Rightarrow> Inl (Error (''Runner group '' @ wanted @ '' does not exist''))
           | Some g \<Rightarrow> Inr (rgId g)))"

text \<open>
  \<^verbatim>\<open>getRunnerGroupId\<close>: the id of the runner group, read from the parameter store when
  it is stored there (a rejected read is caught), looked up upstream and stored
  otherwise (a rejected write is rethrown).
\<close>

definition getRunnerGroupId :: "jit_config \<Rightarrow> jit_answers \<Rightarrow> js_error + int" where
  "getRunnerGroupId cfg answers =
     (case runnerGroup cfg of
        None \<Rightarrow> Inr 1
      | Some wanted \<Rightarrow>
          if jitRunnerType cfg = ''Org'' then
            (case (case readParameter answers (ssmConfigPath cfg @ ''/runner-group/'' @ wanted) of
                     Inl e \<Rightarrow> None
                   | Inr v \<Rightarrow> v) of
               None \<Rightarrow>
                 (case getRunnerGroupByName cfg answers wanted of
                    Inl e \<Rightarrow> Inl e
                  | Inr found \<Rightarrow>
                      (case putParameter answers (ssmConfigPath cfg @ ''/runner-group/'' @ wanted)
                              (idToString answers found) of
                         Some e \<Rightarrow> Inl e
                       | None \<Rightarrow> Inr found))
             | Some stored \<Rightarrow> Inr (textToInt answers stored))
          else Inr 1)"

text \<open>
  The durable state: the tags of the instances and the secret parameters.
\<close>

record fabric =
  instanceTags :: "string \<Rightarrow> Tag list"
  parameters :: "string \<rightharpoonup> string"

text \<open>\<^verbatim>\<open>String.prototype.split\<close> at a character.\<close>

fun splitAt :: "char \<Rightarrow> string \<Rightarrow> string list" where
  "splitAt c [] = [[]]"
| "splitAt c (x # xs) =
     (if x = c then [] # splitAt c xs
      else (case splitAt c xs of
              [] \<Rightarrow> [[x]]
            | w # ws \<Rightarrow> (x # w) # ws))"

text \<open>
  \<^verbatim>\<open>tagRunnerId\<close>: a rejected tagging is caught and logged, and leaves the tags as they
  are; an accepted one sets the tag, replacing a tag of the same key.
\<close>

definition tagRunnerId :: "jit_answers \<Rightarrow> string \<Rightarrow> string \<Rightarrow> fabric \<Rightarrow> fabric" where
  "tagRunnerId answers instance rid st =
     (case tagInstance answers instance [\<lparr>Key = ''ghr:github_runner_id'', Value = rid\<rparr>] of
        Some e \<Rightarrow> st
      | None \<Rightarrow> st\<lparr>instanceTags := (instanceTags st)
                   (instance := filter (\<lambda>t. Key t \<noteq> ''ghr:github_runner_id'')
                                       (instanceTags st instance)
                                  @ [\<lparr>Key = ''ghr:github_runner_id'', Value = rid\<rparr>])\<rparr>)"

text \<open>The loop of \<^verbatim>\<open>createJitConfig\<close> over the instances: the error thrown, if any, and the state.\<close>

fun jitLoop ::
  "jit_config \<Rightarrow> jit_answers \<Rightarrow> int \<Rightarrow> string list \<Rightarrow> string list \<Rightarrow> fabric
     \<Rightarrow> js_error option \<times> fabric" where
  "jitLoop cfg answers groupId labels [] st = (None, st)"
| "jitLoop cfg answers groupId labels (instance # rest) st =
     (let ephemeralRunnerConfig =
            \<lparr>runnerName = runnerNamePrefix cfg @ instance,
             runnerGroupId = groupId,
             runnerLabels = labels\<rparr>
      in case generateRunnerJitconfig answers (jitRunnerType cfg) (jitRunnerOwner cfg)
                ephemeralRunnerConfig of
           Inl e \<Rightarrow> (Some e, st)
         | Inr (rid, encoded_jit_config) \<Rightarrow>
             (let st1 = tagRunnerId answers instance (idToString answers rid) st in
              case putParameter answers (jitSsmTokenPath cfg @ ''/'' @ instance) encoded_jit_config of
                Some e \<Rightarrow> (Some e, st1)
              | None \<Rightarrow>
                  jitLoop cfg answers groupId labels rest
                    (st1\<lparr>parameters := (parameters st1)
                           (jitSsmTokenPath cfg @ ''/'' @ instance \<mapsto> encoded_jit_config)\<rparr>)))"

definition createJitConfig ::
  "jit_config \<Rightarrow> jit_answers \<Rightarrow> string list \<Rightarrow> fabric \<Rightarrow> js_error option \<times> fabric" where
  "createJitConfig cfg answers instances st =
     (case getRunnerGroupId cfg answers of
        Inl e \<Rightarrow> (Some e, st)
      | Inr groupId \<Rightarrow>
          jitLoop cfg answers groupId (splitAt CHR '','' (jitRunnerLabels cfg)) instances st)"

text \<open>The request that \<^verbatim>\<open>createJitConfig\<close> sends upstream for an instance.\<close>

definition jitRequest :: "jit_config \<Rightarrow> int \<Rightarrow> string \<Rightarrow> EphemeralRunnerConfig" where
  "jitRequest cfg groupId instance =
     \<lparr>runnerName = runnerNamePrefix cfg @ instance, runnerGroupId = groupId,
      runnerLabels = splitAt CHR '','' (jitRunnerLabels cfg)\<rparr>"

section \<open>Example inputs\<close>

text \<open>
  The parameters and the fleet answers of the repository's tests of \<^verbatim>\<open>createRunner\<close>
  (\<^verbatim>\<open>createRunnerConfig\<close>, \<^verbatim>\<open>createFleetMockWithErrors\<close>).
\<close>

definition exampleParams :: RunnerInputParameters where
  "exampleParams =
     \<lparr>runnerServiceConfig = [''--token foo'', ''--url http://github.com''],
      runnerType = ''Repo'',
      runnerOwner = ''SomeAwesomeCoder/some-amazing-library'',
      ssmTokenPath = ''/github-action-runners/default/runners/tokens'',
      launchTemplateName = ''lt-1'',
      subnets = [''subnet-123'', ''subnet-456''],
      instanceTypes = [''m5.large'', ''c5.large''],
      targetCapacityType = ''spot'',
      maxSpotPrice = None,
      instanceAllocationStrategy = ''capacity-optimized'',
      numberOfRunners = None,
      amiIdSsmParameterName = None\<rparr>"

definition awsReturning :: "CreateFleetResult \<Rightarrow> aws_answers" where
  "awsReturning fleet =
     \<lparr>getParameter = (\<lambda>n. Inr None), createFleet = (\<lambda>c. Inr fleet),
      putSecureString = (\<lambda>n v. None)\<rparr>"

definition createFleetMockWithErrors :: "string list \<Rightarrow> string list option \<Rightarrow> CreateFleetResult" where
  "createFleetMockWithErrors errors instances =
     \<lparr>Instances = map_option (\<lambda>ids. [Some ids]) instances, Errors = Some (map Some errors)\<rparr>"

text \<open>Three upstream runners and five running instances for the pool.\<close>

definition poolRunners :: "GhRunner list" where
  "poolRunners =
     [\<lparr>ghId = 1, name = ''i-1'', status = ''online'', busy = False\<rparr>,
      \<lparr>ghId = 2, name = ''i-2'', status = ''online'', busy = True\<rparr>,
      \<lparr>ghId = 3, name = ''i-3'', status = ''offline'', busy = False\<rparr>]"

definition poolInstances :: "RunnerInfo list" where
  "poolInstances =
     [\<lparr>instanceId = ''i-1'', launchTime = Some 0, owner = ''org'', type = ''Org''\<rparr>,
      \<lparr>instanceId = ''i-2'', launchTime = Some 0, owner = ''org'', type = ''Org''\<rparr>,
      \<lparr>instanceId = ''i-3'', launchTime = Some 0, owner = ''org'', type = ''Org''\<rparr>,
      \<lparr>instanceId = ''i-4'', launchTime = Some 1000000, owner = ''org'', type = ''Org''\<rparr>,
      \<lparr>instanceId = ''i-5'', launchTime = Some 0, owner = ''org'', type = ''Org''\<rparr>]"

text \<open>A queue record and the message read from it, with a given retry counter.\<close>

definition mkRecord :: "int option \<Rightarrow> string \<Rightarrow> SQSRecord" where
  "mkRecord c mid =
     \<lparr>body = Some \<lparr>jobId = 1, eventType = ''workflow_job'', repositoryName = ''hello-world'',
                    repositoryOwner = ''Codertocat'', installationId = 2,
                    repoOwnerType = ''Organization'', retryCounter = c\<rparr>,
      eventSource = ''aws:sqs'', recordMessageId = mid\<rparr>"

definition mkMsg :: "int option \<Rightarrow> string \<Rightarrow> ActionRequestMessageSQS" where
  "mkMsg c mid =
     \<lparr>jobId = 1, eventType = ''workflow_job'', repositoryName = ''hello-world'',
      repositoryOwner = ''Codertocat'', installationId = 2,
      repoOwnerType = ''Organization'', retryCounter = c, messageId = mid\<rparr>"

text \<open>
  Four instances of one owner, launched at the seconds 1 to 4 and listed out of order;
  an upstream service where each has an idle runner and every call succeeds; and a pass
  one hour later with an idle quota of 2 and the strategy \<^verbatim>\<open>oldest_first\<close>.
\<close>

definition fourRunners :: "RunnerInfo list" where
  "fourRunners =
     [\<lparr>instanceId = ''i-2'', launchTime = Some 2000, owner = ''org'', type = ''Org''\<rparr>,
      \<lparr>instanceId = ''i-4'', launchTime = Some 4000, owner = ''org'', type = ''Org''\<rparr>,
      \<lparr>instanceId = ''i-1'', launchTime = Some 1000, owner = ''org'', type = ''Org''\<rparr>,
      \<lparr>instanceId = ''i-3'', launchTime = Some 3000, owner = ''org'', type = ''Org''\<rparr>]"

definition idleRunners :: "GhRunner list" where
  "idleRunners =
     [\<lparr>ghId = 1, name = ''runner-i-1'', status = ''online'', busy = False\<rparr>,
      \<lparr>ghId = 2, name = ''runner-i-2'', status = ''online'', busy = False\<rparr>,
      \<lparr>ghId = 3, name = ''runner-i-3'', status = ''online'', busy = False\<rparr>,
      \<lparr>ghId = 4, name = ''runner-i-4'', status = ''online'', busy = False\<rparr>]"

definition idleUpstream :: github_answers where
  "idleUpstream =
     \<lparr>listRunners = (\<lambda>ownerTag. Inr idleRunners),
      getRunner = (\<lambda>ownerTag n.
         Inr (Some \<lparr>ghId = n, name = ''runner'', status = ''online'', busy = False\<rparr>)),
      deleteRunner = (\<lambda>ownerTag n. Inr 204)\<rparr>"

definition ec2Accepting :: ec2_answers where
  "ec2Accepting =
     \<lparr>terminateInstances = (\<lambda>i. None)\<rparr>"

definition quotaTwoOldestFirst :: pass_config where
  "quotaTwoOldestFirst =
     \<lparr>timeNow = 3600000, minimumRunningTimeInMinutes = 5, runnerBootTimeInMinutes = 5,
      idleRunnerCount = 2, evictionStrategy = ''oldest_first''\<rparr>"

text \<open>
  An engine that leaves an array with an inconsistent comparator as it is listed.
\<close>

definition asListed :: "'a sort_engine" where
  "asListed = Abs_sort_engine (\<lambda>cmp xs. xs)"

text \<open>
  One instance, launched at the second 1, whose runner 1 is in the list of the owner's
  runners but is no longer found by the query of that runner (404), while its
  de-registration answers 204; and a pass one hour later without idle quota.
\<close>

definition goneRunner :: "RunnerInfo list" where
  "goneRunner =
     [\<lparr>instanceId = ''i-1'', launchTime = Some 1000, owner = ''org'', type = ''Org''\<rparr>]"

definition goneUpstream :: github_answers where
  "goneUpstream =
     \<lparr>listRunners = (\<lambda>ownerTag.
         Inr [\<lparr>ghId = 1, name = ''runner-i-1'', status = ''online'', busy = False\<rparr>]),
      getRunner = (\<lambda>ownerTag n. Inr None),
      deleteRunner = (\<lambda>ownerTag n. Inr 204)\<rparr>"

definition noQuota :: pass_config where
  "noQuota =
     \<lparr>timeNow = 3600000, minimumRunningTimeInMinutes = 5, runnerBootTimeInMinutes = 5,
      idleRunnerCount = 0, evictionStrategy = ''oldest_first''\<rparr>"






text \<open>
  The batch of the repository's tests of \<^verbatim>\<open>scaleUp\<close> (\<^verbatim>\<open>createTestMessages\<close>): workflow-job
  messages of one organisation, \<^verbatim>\<open>message-0\<close>, \<^verbatim>\<open>message-1\<close>, \<dots>; a configuration with a
  given maximum and mode; and services that answer as the mocks of the tests do: every
  job is queued, one instance is running for the group, and \<^verbatim>\<open>createRunners\<close> returns one
  instance.
\<close>

definition batchMessage :: "int \<Rightarrow> ActionRequestMessageSQS" where
  "batchMessage i =
     \<lparr>jobId = i + 1, eventType = ''workflow_job'', repositoryName = ''hello-world'',
      repositoryOwner = ''Codertocat'', installationId = 2,
      repoOwnerType = ''Organization'', retryCounter = None,
      messageId = ''message-'' @ [char_of (48 + i)]\<rparr>"

definition capOf :: "int \<Rightarrow> bool \<Rightarrow> scale_up_config" where
  "capOf m e = \<lparr>enableOrgLevel = True, maximumRunners = m, ephemeralEnabled = e,
                enableJobQueuedCheck = True\<rparr>"

definition oneRunning :: scale_up_answers where
  "oneRunning =
     \<lparr>appClient = None,
      installationClient = (\<lambda>payload. None),
      jobStatus = (\<lambda>payload. Inr ''queued''),
      listEC2Runners = (\<lambda>scope.
         Inr [\<lparr>instanceId = ''i-existing'', launchTime = Some 0, owner = scope, type = ''Org''\<rparr>]),
      createRunners = (\<lambda>scope n. Inr [''i-12345''])\<rparr>"

definition threeMessages :: "ActionRequestMessageSQS list" where
  "threeMessages = [batchMessage 0, batchMessage 1, batchMessage 2]"

text \<open>
  A batch of two scopes: the three messages above, and one message of another
  organisation. The job of the third message (job 3) is completed, the others are
  queued; one instance is running for the first organisation and none for the second;
  \<^verbatim>\<open>createRunners\<close> returns one instance.
\<close>

definition otherMessage :: ActionRequestMessageSQS where
  "otherMessage =
     \<lparr>jobId = 9, eventType = ''workflow_job'', repositoryName = ''hello-world'',
      repositoryOwner = ''octo-org'', installationId = 2,
      repoOwnerType = ''Organization'', retryCounter = None,
      messageId = ''message-9''\<rparr>"

definition twoScopes :: "ActionRequestMessageSQS list" where
  "twoScopes = [batchMessage 0, batchMessage 1, otherMessage, batchMessage 2]"

definition thirdCompleted :: scale_up_answers where
  "thirdCompleted =
     \<lparr>appClient = None,
      installationClient = (\<lambda>payload. None),
      jobStatus = (\<lambda>payload. if jobId payload = 3 then Inr ''completed'' else Inr ''queued''),
      listEC2Runners = (\<lambda>scope.
         if scope = ''Codertocat''
         then Inr [\<lparr>instanceId = ''i-existing'', launchTime = Some 0, owner = scope, type = ''Org''\<rparr>]
         else Inr []),
      createRunners = (\<lambda>scope n. Inr [''i-12345''])\<rparr>"

text \<open>
  A configuration, services and an empty state for \<^verbatim>\<open>createJitConfig\<close>: the id 1 of
  the runner group is stored in the parameter store, and the cloud rejects the tagging
  of the instance \<^verbatim>\<open>i-1\<close> and accepts every other call.
\<close>

definition jitExample :: jit_config where
  "jitExample =
     \<lparr>jitRunnerLabels = ''label1,label2'', runnerGroup = Some ''Default'',
      runnerNamePrefix = ''unit-test-'',
      jitRunnerOwner = ''Codertocat'', jitRunnerType = ''Org'',
      jitSsmTokenPath = ''/github-action-runners/default/runners/config'',
      ssmConfigPath = ''/github-action-runners/default/runners/config''\<rparr>"

definition jitServices :: jit_answers where
  "jitServices =
     \<lparr>readParameter = (\<lambda>n. Inr (Some ''1'')),
      listRunnerGroups = (\<lambda>org. Inr []),
      generateRunnerJitconfig = (\<lambda>t ownerName request.
         if runnerName request = ''unit-test-i-1'' then Inr (101, ''jit-i-1'')
         else Inr (102, ''jit-i-2'')),
      textToInt = (\<lambda>s. 1),
      idToString = (\<lambda>n. if n = 101 then ''101'' else ''102''),
      tagInstance = (\<lambda>i tags. if i = ''i-1'' then Some (Error ''tagging rejected'') else None),
      putParameter = (\<lambda>n v. None)\<rparr>"

definition emptyFabric :: fabric where
  "emptyFabric = \<lparr>instanceTags = (\<lambda>i. []), parameters = Map.empty\<rparr>"

section \<open>The intake handler: theorems\<close>

lemma toBatchItemFailures_count:
  "toBatchItemFailures n ms = map messageId (take (nat (min (max 0 n) (int (length ms)))) ms)"
  by (simp add: toBatchItemFailures_def Let_def max_def min_def)

text \<open>
  C3. Whatever \<^verbatim>\<open>scaleUp\<close> is (here \<open>up\<close>, the function from the sorted batch to its
  outcome): when the batch is read (every record of the queue parses) and \<^verbatim>\<open>scaleUp\<close> throws
  the \<^verbatim>\<open>ScaleError\<close> with \<open>failedInstanceCount = n\<close>, the handler returns as batch item
  failures the identifiers of exactly the first \<open>min (max 0 n) (batch size)\<close> messages
  in the retry-sorted order; when \<^verbatim>\<open>scaleUp\<close> throws any other error, the handler returns
  an empty list of batch item failures.
\<close>

theorem scaleUpHandler_error_policy:
  "sqsMessages records = Inr ms \<Longrightarrow>
     (up (sortByRetry ms) = Inl (ScaleError n) \<longrightarrow>
        scaleUpHandler up records =
          Inr \<lparr>batchItemFailures =
                 map messageId (take (nat (min (max 0 n) (int (length ms)))) (sortByRetry ms))\<rparr>)
     \<and> (up (sortByRetry ms) = Inl (Error msg) \<longrightarrow>
        scaleUpHandler up records = Inr \<lparr>batchItemFailures = []\<rparr>)"
  by (simp add: scaleUpHandler_def Let_def toBatchItemFailures_count sortByRetry_def)

lemma sqsMessages_example:
  "sqsMessages [mkRecord (Some 2) ''a'', mkRecord None ''b'', mkRecord (Some 1) ''c'']
     = Inr [mkMsg (Some 2) ''a'', mkMsg None ''b'', mkMsg (Some 1) ''c'']"
  by (simp add: mkRecord_def mkMsg_def ActionRequestMessage.defs ActionRequestMessageSQS.defs)

text \<open>
  A batch of three messages with retry counters 2, none and 1: a \<^verbatim>\<open>ScaleError\<close> of two
  failed instances rejects the messages with the two smallest counters, another error
  rejects none.
\<close>

theorem scaleUpHandler_error_policy_witness:
  "scaleUpHandler (\<lambda>_. Inl (ScaleError 2))
       [mkRecord (Some 2) ''a'', mkRecord None ''b'', mkRecord (Some 1) ''c'']
     = Inr \<lparr>batchItemFailures = [''b'', ''c'']\<rparr>
   \<and> scaleUpHandler (\<lambda>_. Inl (Error ''boom''))
       [mkRecord (Some 2) ''a'', mkRecord None ''b'', mkRecord (Some 1) ''c'']
     = Inr \<lparr>batchItemFailures = []\<rparr>"
  using scaleUpHandler_error_policy [OF sqsMessages_example, of "\<lambda>_. Inl (ScaleError 2)" 2 "''boom''"]
        scaleUpHandler_error_policy [OF sqsMessages_example, of "\<lambda>_. Inl (Error ''boom'')" 0 "''boom''"]
  by (simp add: mkMsg_def sortByRetry_def retryKey_def)

section \<open>createRunner: theorems\<close>

lemma checkFleet_cases:
  "checkFleet fleet =
     (if fleetInstances fleet = [] then
        (if \<exists>e\<in>set (fleetErrors fleet). e \<in> set scaleErrors
         then Inl (ScaleErrorThrown ''Failed to create instance, create fleet failed.'')
         else Inl (ErrorThrown ''Create fleet failed, no instance created.''))
      else Inr (fleetInstances fleet))"
  by (simp add: checkFleet_def Let_def list_ex_iff)

lemma putConfigs_outcome:
  "(\<exists>e. putConfigs aws p instances = Inl (Rejected e))
   \<or> (\<exists>written. putConfigs aws p instances = Inr written)"
  by (induction instances) (auto split: option.splits sum.splits)

lemma putConfigs_accepted:
  "\<forall>i \<in> set instances.
      putSecureString aws (ssmTokenPath p @ ''/'' @ i) (joinWith '' '' (runnerServiceConfig p)) = None
   \<Longrightarrow> \<exists>written. putConfigs aws p instances = Inr written"
  by (induction instances) auto

text \<open>
  C2. Once the fleet call has answered: with no instance and at least one error code of
  the retriable set, \<^verbatim>\<open>createRunner\<close> throws the \<^verbatim>\<open>ScaleError\<close>; with no instance and no
  error code of that set, it throws the plain error; with one instance or more it
  throws neither of them, whatever the error codes: it goes on to write the secret
  parameters of the instances, and returns when these writes are accepted.
\<close>

theorem createRunner_fleet_outcome:
  "amiIdOverride aws p = Inr ami \<Longrightarrow> createFleet aws (createFleetCommand p ami) = Inr fleet \<Longrightarrow>
     (fleetInstances fleet = [] \<and> (\<exists>e\<in>set (fleetErrors fleet). e \<in> set scaleErrors) \<longrightarrow>
        snd (createRunner aws p)
          = Inl (ScaleErrorThrown ''Failed to create instance, create fleet failed.''))
   \<and> (fleetInstances fleet = [] \<and> (\<forall>e\<in>set (fleetErrors fleet). e \<notin> set scaleErrors) \<longrightarrow>
        snd (createRunner aws p) = Inl (ErrorThrown ''Create fleet failed, no instance created.''))
   \<and> (fleetInstances fleet \<noteq> [] \<longrightarrow>
        (\<forall>m. snd (createRunner aws p) \<noteq> Inl (ScaleErrorThrown m)
             \<and> snd (createRunner aws p) \<noteq> Inl (ErrorThrown m))
        \<and> ((\<forall>i \<in> set (fleetInstances fleet).
               putSecureString aws (ssmTokenPath p @ ''/'' @ i)
                 (joinWith '' '' (runnerServiceConfig p)) = None)
             \<longrightarrow> (\<exists>written. snd (createRunner aws p) = Inr written)))"
proof -
  assume a: "amiIdOverride aws p = Inr ami"
    and f: "createFleet aws (createFleetCommand p ami) = Inr fleet"
  have r: "snd (createRunner aws p)
             = (case checkFleet fleet of Inl e \<Rightarrow> Inl e
                | Inr instances \<Rightarrow> putConfigs aws p instances)"
    using a f by (simp add: createRunner_def Let_def)
  show ?thesis
    using putConfigs_outcome [of aws p "fleetInstances fleet"]
          putConfigs_accepted [of "fleetInstances fleet" aws p]
    by (auto simp: r checkFleet_cases)
qed

lemma exampleParams_ami: "amiIdOverride (awsReturning fleet) exampleParams = Inr None"
  by (simp add: amiIdOverride_def exampleParams_def)

lemma awsReturning_fleet: "createFleet (awsReturning fleet) c = Inr fleet"
  by (simp add: awsReturning_def)

text \<open>Fleet answers of the repository's tests of \<^verbatim>\<open>createRunner\<close> with errors.\<close>

theorem createRunner_fleet_outcome_witness:
  "snd (createRunner (awsReturning (createFleetMockWithErrors
                        [''UnfulfillableCapacity'', ''SomeError''] None)) exampleParams)
     = Inl (ScaleErrorThrown ''Failed to create instance, create fleet failed.'')
   \<and> snd (createRunner (awsReturning (createFleetMockWithErrors
                        [''NonMappedError''] None)) exampleParams)
     = Inl (ErrorThrown ''Create fleet failed, no instance created.'')
   \<and> (\<exists>written. snd (createRunner (awsReturning (createFleetMockWithErrors
                        [''UnfulfillableCapacity''] (Some [''i-123'']))) exampleParams)
     = Inr written)"
  using createRunner_fleet_outcome [OF exampleParams_ami awsReturning_fleet,
          of "createFleetMockWithErrors [''UnfulfillableCapacity'', ''SomeError''] None"]
        createRunner_fleet_outcome [OF exampleParams_ami awsReturning_fleet,
          of "createFleetMockWithErrors [''NonMappedError''] None"]
        createRunner_fleet_outcome [OF exampleParams_ami awsReturning_fleet,
          of "createFleetMockWithErrors [''UnfulfillableCapacity''] (Some [''i-123''])"]
  by (simp add: createFleetMockWithErrors_def fleetInstances_def fleetErrors_def scaleErrors_def
        awsReturning_def)

lemma example_sent:
  "fst (createRunner (awsReturning fleet) exampleParams) = [createFleetCommand exampleParams None]"
  by (simp add: createRunner_def exampleParams_ami awsReturning_fleet Let_def)

text \<open>
  C7, as the claim states it, fails: the tag specification of the fleet command that
  \<^verbatim>\<open>createRunner\<close> sends for the example parameters has no \<^verbatim>\<open>ghr:environment\<close> tag.
\<close>

theorem createRunner_environment_tag_counterexample:
  "\<not> (\<forall>c \<in> set (fst (createRunner (awsReturning (createFleetMockWithErrors [] (Some [''i-123''])))
                                      exampleParams)).
        {''ghr:Application'', ''ghr:environment'', ''Type'', ''Owner'', ''ghr:created_by''}
          \<subseteq> set (map Key (Tags c)))"
  by (simp add: example_sent createFleetCommand_def)

text \<open>
  C7, amended. Every fleet command that \<^verbatim>\<open>createRunner\<close> sends carries, for the resource
  type \<^verbatim>\<open>instance\<close>, exactly four tags: the application marker, the creator, the
  category (\<^verbatim>\<open>Type\<close>) and the owner. The environment tag is not part of the tag
  specification of the call.
\<close>

theorem createRunner_tag_specification:
  "c \<in> set (fst (createRunner aws p)) \<Longrightarrow>
     ResourceType c = ''instance'' \<and>
     Tags c = [\<lparr>Key = ''ghr:Application'', Value = ''github-action-runner''\<rparr>,
               \<lparr>Key = ''ghr:created_by'',
                Value = (if requestedRunners p = 1 then ''scale-up-lambda'' else ''pool-lambda'')\<rparr>,
               \<lparr>Key = ''Type'', Value = runnerType p\<rparr>,
               \<lparr>Key = ''Owner'', Value = runnerOwner p\<rparr>]"
  by (auto simp: createRunner_def Let_def createFleetCommand_def split: sum.splits)

theorem createRunner_tag_specification_witness:
  "createFleetCommand exampleParams None
     \<in> set (fst (createRunner (awsReturning (createFleetMockWithErrors [] (Some [''i-123''])))
                               exampleParams))
   \<and> map Key (Tags (createFleetCommand exampleParams None))
       = [''ghr:Application'', ''ghr:created_by'', ''Type'', ''Owner'']"
  using createRunner_tag_specification [of "createFleetCommand exampleParams None"
          "awsReturning (createFleetMockWithErrors [] (Some [''i-123'']))" exampleParams]
  by (simp add: example_sent)

section \<open>The pool top-up loop: theorems\<close>

lemma countPool_filter:
  "countPool (runnerStatusMap runners Map.empty) now boot ec2runners n
     = n + int (length (filter (inPool runners now boot) ec2runners))"
  by (induction ec2runners arbitrary: n) (auto simp: inPool_def split: option.splits)

text \<open>
  C8. The number of runners that \<^verbatim>\<open>adjust\<close> counts in the pool is the number of instances
  that are present upstream, online and not busy, or absent upstream and not past their
  boot time; with \<open>topUp = max 0 (poolSize - pool)\<close>, \<^verbatim>\<open>createRunners\<close> is called once, with
  \<open>numberOfRunners = topUp\<close>, when \<open>topUp\<close> is positive, and not at all otherwise.
\<close>

theorem adjust_top_up:
  "countPool (runnerStatusMap runners Map.empty) now boot ec2runners 0
     = int (length (filter (inPool runners now boot) ec2runners))
   \<and> adjust poolSize runners ec2runners now boot =
       (let topUp = max 0 (poolSize - int (length (filter (inPool runners now boot) ec2runners)))
        in if topUp > 0 then [topUp] else [])"
  by (simp add: adjust_def Let_def countPool_filter)

text \<open>
  Five running instances and a boot time of five minutes, twenty minutes after the
  launch of most of them: the idle one and the one that is still booting are in the
  pool, so a pool of 3 is topped up by 1 and a pool of 2 is left alone.
\<close>

theorem adjust_top_up_witness:
  "filter (inPool poolRunners 1200000 5) poolInstances = [poolInstances ! 0, poolInstances ! 3]
   \<and> adjust 3 poolRunners poolInstances 1200000 5 = [1]
   \<and> adjust 2 poolRunners poolInstances 1200000 5 = []"
proof -
  have f: "filter (inPool poolRunners 1200000 5) poolInstances = [poolInstances ! 0, poolInstances ! 3]"
    by (simp add: inPool_def poolRunners_def poolInstances_def bootTimeExceeded_def)
  show ?thesis
    using adjust_top_up [of poolRunners 1200000 5 poolInstances 3]
          adjust_top_up [of poolRunners 1200000 5 poolInstances 2]
    by (simp add: f)
qed

section \<open>The scale-down reaper: lemmas\<close>

lemma foldl_concat_lists: "foldl f a (concat xss) = foldl (foldl f) a xss"
  by (induction xss arbitrary: a) simp_all

lemma evaluateAndRemoveRunners_order:
  "evaluateAndRemoveRunners engine gh ec2 cfg ec2Runners
     = foldl (evaluateRunner gh ec2 cfg) (passStart cfg) (evictionOrder engine cfg ec2Runners)"
  by (simp add: evaluateAndRemoveRunners_def evictionOrder_def passStart_def
        foldl_concat_lists foldl_map)

lemma set_insertBy: "set (insertBy cmp x ys) = insert x (set ys)"
  by (induction ys) auto

lemma set_stableSort: "set (stableSort cmp xs) = set xs"
  by (induction xs) (simp_all add: stableSort_def set_insertBy)

lemma set_arraySort: "set (arraySort engine cmp xs) = set xs"
proof (cases "consistentComparator cmp xs")
  case True
  then show ?thesis by (simp add: arraySort_def set_stableSort)
next
  case False
  have "count_list (Rep_sort_engine engine cmp xs) x = count_list xs x" for x
    using Rep_sort_engine [of engine] by simp
  then have "x \<in> set (Rep_sort_engine engine cmp xs) \<longleftrightarrow> x \<in> set xs" for x
    by (metis count_list_0_iff)
  with False show ?thesis by (auto simp: arraySort_def)
qed

lemma consistent_oldestFirst:
  "\<forall>r \<in> set xs. launchTime r \<noteq> None \<Longrightarrow> consistentComparator oldestFirstStrategy xs"
  unfolding consistentComparator_def oldestFirstStrategy_def
  by (auto split: option.splits if_splits)

lemma arraySort_oldestFirst:
  "\<forall>r \<in> set xs. launchTime r \<noteq> None \<Longrightarrow>
     arraySort engine oldestFirstStrategy xs = stableSort oldestFirstStrategy xs"
  by (simp add: arraySort_def consistent_oldestFirst)

text \<open>
  An instance without launch time makes the comparator inconsistent, and the order is
  the engine's: for the engine \<open>asListed\<close>, the array as it is listed.
\<close>

lemma arraySort_unlaunched:
  "r \<in> set xs \<Longrightarrow> launchTime r = None \<Longrightarrow>
     arraySort engine oldestFirstStrategy xs = Rep_sort_engine engine oldestFirstStrategy xs"
  by (auto simp: arraySort_def consistentComparator_def oldestFirstStrategy_def)

lemma asListed_order: "Rep_sort_engine asListed cmp xs = xs"
  by (simp add: asListed_def Abs_sort_engine_inverse)

lemma set_evictionOrder: "set (evictionOrder engine cfg ec2Runners) = set ec2Runners"
  by (auto simp: evictionOrder_def ec2RunnersFiltered_def setOrder_def set_arraySort)

lemma promiseAll_map_Inr:
  "promiseAll (map f ids) = Inr vs \<Longrightarrow> g \<in> set ids \<Longrightarrow> \<exists>v \<in> set vs. f g = Inr v"
proof (induction ids arbitrary: vs)
  case Nil
  then show ?case by simp
next
  case (Cons a ids)
  then show ?case by (cases "f a") (auto split: sum.splits)
qed

lemma removeRunner_Terminate:
  assumes "Terminate i \<in> set (removeRunner gh ec2 r ids)"
  shows "i = instanceId r
     \<and> (\<forall>g \<in> set ids. getGitHubRunnerBusyState gh r g = Inr False
                       \<and> deleteRunner gh (owner r) g = Inr 204)"
proof (cases "promiseAll (map (getGitHubRunnerBusyState gh r) ids)")
  case (Inl e)
  with assms show ?thesis by (simp add: removeRunner_def)
next
  case s: (Inr states)
  show ?thesis
  proof (cases "promiseAll (map (deleteRunner gh (owner r)) ids)")
    case (Inl e)
    with assms s show ?thesis by (auto simp: removeRunner_def split: if_splits)
  next
    case d: (Inr statuses)
    from assms s d have idle: "list_all (\<lambda>busy. busy = False) states"
      and ok: "list_all (\<lambda>status. status = 204) statuses" and i: "i = instanceId r"
      by (auto simp: removeRunner_def split: if_splits)
    have "getGitHubRunnerBusyState gh r g = Inr False \<and> deleteRunner gh (owner r) g = Inr 204"
      if "g \<in> set ids" for g
      using promiseAll_map_Inr [OF s that] promiseAll_map_Inr [OF d that] idle ok
      by (auto simp: list_all_iff)
    with i show ?thesis by blast
  qed
qed

lemma evaluateRunner_Terminate:
  assumes "Terminate i \<in> set (effects (evaluateRunner gh ec2 cfg st r))"
  shows "Terminate i \<in> set (effects st)
     \<or> (instanceId r = i \<and> terminable gh cfg r \<and> idleCounter st \<le> 0)"
proof (cases "Terminate i \<in> set (effects st)")
  case True
  then show ?thesis by simp
next
  case False
  with assms obtain ghRunners where l: "listRunners gh (owner r) = Inr ghRunners"
    by (cases "listRunners gh (owner r)") (auto simp: evaluateRunner_def split: if_splits)
  from False assms l have
    m: "matchingRunners ghRunners r \<noteq> []"
    and t: "runnerMinimumTimeExceeded (timeNow cfg) (minimumRunningTimeInMinutes cfg) r"
    and c: "idleCounter st \<le> 0"
    and rm: "Terminate i \<in> set (removeRunner gh ec2 r (map ghId (matchingRunners ghRunners r)))"
    by (auto simp: evaluateRunner_def Let_def split: if_splits)
  from removeRunner_Terminate [OF rm] l m t c show ?thesis
    by (auto simp: terminable_def list_all_iff)
qed

lemma pass_Terminate:
  "Terminate i \<in> set (effects (foldl (evaluateRunner gh ec2 cfg) st rs)) \<Longrightarrow>
     Terminate i \<in> set (effects st)
     \<or> (\<exists>pre r post. rs = pre @ r # post \<and> instanceId r = i \<and> terminable gh cfg r
            \<and> idleCounter (foldl (evaluateRunner gh ec2 cfg) st pre) \<le> 0)"
proof (induction rs rule: rev_induct)
  case Nil
  then show ?case by simp
next
  case (snoc r rs)
  from snoc.prems have
    "Terminate i \<in> set (effects (evaluateRunner gh ec2 cfg (foldl (evaluateRunner gh ec2 cfg) st rs) r))"
    by simp
  from evaluateRunner_Terminate [OF this] show ?case
  proof
    assume "Terminate i \<in> set (effects (foldl (evaluateRunner gh ec2 cfg) st rs))"
    from snoc.IH [OF this] show ?thesis
    proof
      assume "Terminate i \<in> set (effects st)"
      then show ?thesis by simp
    next
      assume "\<exists>pre r post. rs = pre @ r # post \<and> instanceId r = i \<and> terminable gh cfg r
            \<and> idleCounter (foldl (evaluateRunner gh ec2 cfg) st pre) \<le> 0"
      then obtain pre r' post where "rs = pre @ r' # post" "instanceId r' = i" "terminable gh cfg r'"
        "idleCounter (foldl (evaluateRunner gh ec2 cfg) st pre) \<le> 0" by blast
      then have "rs @ [r] = pre @ r' # (post @ [r])" by simp
      with \<open>instanceId r' = i\<close> \<open>terminable gh cfg r'\<close>
        \<open>idleCounter (foldl (evaluateRunner gh ec2 cfg) st pre) \<le> 0\<close>
      show ?thesis by blast
    qed
  next
    assume "instanceId r = i \<and> terminable gh cfg r
        \<and> idleCounter (foldl (evaluateRunner gh ec2 cfg) st rs) \<le> 0"
    then show ?thesis by blast
  qed
qed



lemma fourRunners_order:
  "evictionOrder engine quotaTwoOldestFirst fourRunners
     = [fourRunners ! 1, fourRunners ! 3, fourRunners ! 0, fourRunners ! 2]"
proof -
  have "\<forall>r \<in> set (filter (\<lambda>runner. owner runner = ''org'') fourRunners). launchTime r \<noteq> None"
    by (simp add: fourRunners_def)
  then have "ec2RunnersFiltered engine quotaTwoOldestFirst fourRunners ''org''
               = stableSort oldestFirstStrategy (filter (\<lambda>runner. owner runner = ''org'') fourRunners)"
    by (simp add: ec2RunnersFiltered_def quotaTwoOldestFirst_def arraySort_oldestFirst)
  moreover have "setOrder (map owner fourRunners) = [''org'']"
    by (simp add: setOrder_def fourRunners_def)
  ultimately show ?thesis
    by (simp add: evictionOrder_def)
       (simp add: stableSort_def oldestFirstStrategy_def fourRunners_def)
qed

lemma fourRunners_effects:
  "effects (evaluateAndRemoveRunners engine idleUpstream ec2Accepting quotaTwoOldestFirst fourRunners)
     = [Deregister ''org'' 2, Terminate ''i-2'', Deregister ''org'' 1, Terminate ''i-1'']"
  by (simp add: evaluateAndRemoveRunners_order fourRunners_order passStart_def)
     (simp add: fourRunners_def evaluateRunner_def idleUpstream_def idleRunners_def quotaTwoOldestFirst_def
        matchingRunners_def endsWith_def runnerMinimumTimeExceeded_def removeRunner_def
        getGitHubRunnerBusyState_def getGitHubSelfHostedRunnerState_def Let_def)


lemma distinct_insertBy: "distinct (insertBy cmp x ys) \<longleftrightarrow> x \<notin> set ys \<and> distinct ys"
  by (induction ys) (auto simp: set_insertBy)

lemma distinct_stableSort: "distinct (stableSort cmp xs) \<longleftrightarrow> distinct xs"
proof (induction xs)
  case Nil
  then show ?case by (simp add: stableSort_def)
next
  case (Cons x xs)
  have "stableSort cmp (x # xs) = insertBy cmp x (stableSort cmp xs)" by (simp add: stableSort_def)
  with Cons show ?case by (simp add: distinct_insertBy set_stableSort)
qed

lemma oldestFirst_le:
  "launchTime a \<noteq> None \<Longrightarrow> launchTime b \<noteq> None \<Longrightarrow>
     oldestFirstStrategy a b \<le> 0 \<longleftrightarrow> launchKey b \<le> launchKey a"
  by (auto simp: oldestFirstStrategy_def launchKey_def split: if_splits)

lemma sorted_insertBy_oldestFirst:
  "launchTime x \<noteq> None \<Longrightarrow> \<forall>y \<in> set ys. launchTime y \<noteq> None \<Longrightarrow>
   sorted_wrt (\<lambda>a b. launchKey b \<le> launchKey a) ys \<Longrightarrow>
   sorted_wrt (\<lambda>a b. launchKey b \<le> launchKey a) (insertBy oldestFirstStrategy x ys)"
proof (induction ys)
  case Nil
  then show ?case by simp
next
  case (Cons y ys)
  show ?case
  proof (cases "oldestFirstStrategy x y \<le> 0")
    case True
    with Cons.prems have "launchKey y \<le> launchKey x" by (simp add: oldestFirst_le)
    with True Cons.prems show ?thesis by fastforce
  next
    case False
    with Cons.prems have "launchKey x \<le> launchKey y" by (simp add: oldestFirst_le)
    with False Cons show ?thesis by (auto simp: set_insertBy)
  qed
qed

lemma sorted_stableSort_oldestFirst:
  "\<forall>y \<in> set xs. launchTime y \<noteq> None \<Longrightarrow>
   sorted_wrt (\<lambda>a b. launchKey b \<le> launchKey a) (stableSort oldestFirstStrategy xs)"
proof (induction xs)
  case Nil
  then show ?case by (simp add: stableSort_def)
next
  case (Cons x xs)
  have "stableSort oldestFirstStrategy (x # xs)
          = insertBy oldestFirstStrategy x (stableSort oldestFirstStrategy xs)"
    by (simp add: stableSort_def)
  with Cons show ?case by (simp add: sorted_insertBy_oldestFirst set_stableSort)
qed

lemma descending_unique:
  assumes "sorted_wrt (\<lambda>a b. launchKey b \<le> launchKey a) xs"
    and "sorted_wrt (\<lambda>a b. launchKey b \<le> launchKey a) ys"
    and "set xs = set ys" and "distinct xs" and "distinct ys"
    and "inj_on launchKey (set xs)"
  shows "xs = ys"
proof -
  have sx: "sorted (rev (map launchKey xs))" and sy: "sorted (rev (map launchKey ys))"
    using assms(1,2) by (simp_all add: sorted_wrt_rev sorted_wrt_map)
  have dx: "distinct (rev (map launchKey xs))" and dy: "distinct (rev (map launchKey ys))"
    using assms(3-6) by (simp_all add: distinct_map)
  have "set (rev (map launchKey xs)) = set (rev (map launchKey ys))"
    using assms(3) by simp
  from sorted_distinct_set_unique [OF sx dx sy dy this]
  have "map launchKey xs = map launchKey ys" by simp
  then show ?thesis
    using assms(3,6) by (auto intro: map_inj_on)
qed

lemma stableSort_four:
  assumes "distinct rs" "set rs = {r1, r2, r3, r4}"
    and "launchTime r1 = Some t1" "launchTime r2 = Some t2"
        "launchTime r3 = Some t3" "launchTime r4 = Some t4"
    and "t1 < t2" "t2 < t3" "t3 < t4"
  shows "stableSort oldestFirstStrategy rs = [r4, r3, r2, r1]"
proof (rule descending_unique)
  show "sorted_wrt (\<lambda>a b. launchKey b \<le> launchKey a) (stableSort oldestFirstStrategy rs)"
    using assms by (intro sorted_stableSort_oldestFirst) auto
  show "sorted_wrt (\<lambda>a b. launchKey b \<le> launchKey a) [r4, r3, r2, r1]"
    using assms by (simp add: launchKey_def)
  show "set (stableSort oldestFirstStrategy rs) = set [r4, r3, r2, r1]"
    using assms by (auto simp: set_stableSort)
  show "distinct (stableSort oldestFirstStrategy rs)"
    using assms by (simp add: distinct_stableSort)
  show "distinct [r4, r3, r2, r1]"
    using assms by auto
  show "inj_on launchKey (set (stableSort oldestFirstStrategy rs))"
    using assms by (auto simp: set_stableSort launchKey_def inj_on_def)
qed

lemma remdups_single: "xs \<noteq> [] \<Longrightarrow> set xs \<subseteq> {a} \<Longrightarrow> remdups xs = [a]"
proof (induction xs)
  case Nil
  then show ?case by simp
next
  case (Cons x xs)
  then show ?case by (cases xs) auto
qed

lemma setOrder_single: "xs \<noteq> [] \<Longrightarrow> set xs \<subseteq> {a} \<Longrightarrow> setOrder xs = [a]"
  by (simp add: setOrder_def remdups_single)

lemma promiseAll_all_Inr:
  "\<forall>g \<in> set ids. f g = Inr (v g) \<Longrightarrow> promiseAll (map f ids) = Inr (map v ids)"
  by (induction ids) simp_all

lemma removeRunner_terminable:
  assumes "\<forall>g \<in> set ids. getGitHubRunnerBusyState gh r g = Inr False
                       \<and> deleteRunner gh (owner r) g = Inr 204"
  shows "removeRunner gh ec2 r ids = map (Deregister (owner r)) ids @ [Terminate (instanceId r)]"
proof -
  have "promiseAll (map (getGitHubRunnerBusyState gh r) ids) = Inr (map (\<lambda>g. False) ids)"
    using assms by (intro promiseAll_all_Inr) simp
  moreover have "promiseAll (map (deleteRunner gh (owner r)) ids) = Inr (map (\<lambda>g. 204) ids)"
    using assms by (intro promiseAll_all_Inr) simp
  ultimately show ?thesis
    by (simp add: removeRunner_def list_all_iff)
qed

lemma evaluateRunner_terminable:
  assumes "terminable gh cfg r" "thrown st = None" "listRunners gh (owner r) = Inr ghRunners"
  shows "evaluateRunner gh ec2 cfg st r =
     (if idleCounter st > 0 then st\<lparr>idleCounter := idleCounter st - 1\<rparr>
      else st\<lparr>effects := effects st @ map (Deregister (owner r)) (map ghId (matchingRunners ghRunners r))
                               @ [Terminate (instanceId r)]\<rparr>)"
proof -
  from assms have m: "matchingRunners ghRunners r \<noteq> []"
    and t: "runnerMinimumTimeExceeded (timeNow cfg) (minimumRunningTimeInMinutes cfg) r"
    and a: "\<forall>g \<in> set (map ghId (matchingRunners ghRunners r)).
              getGitHubRunnerBusyState gh r g = Inr False \<and> deleteRunner gh (owner r) g = Inr 204"
    by (auto simp: terminable_def list_all_iff)
  from removeRunner_terminable [OF a] assms(2,3) m t show ?thesis
    by (simp add: evaluateRunner_def Let_def)
qed


section \<open>The scale-down reaper: theorems\<close>

lemma busyState_not_busy:
  "getGitHubRunnerBusyState gh r g = Inr False \<longleftrightarrow>
     getGitHubSelfHostedRunnerState gh r g = Inr None
     \<or> (\<exists>state. getGitHubSelfHostedRunnerState gh r g = Inr (Some state) \<and> \<not> busy state)"
  by (auto simp: getGitHubRunnerBusyState_def split: sum.splits option.splits)

lemma goneRunner_effects:
  "effects (evaluateAndRemoveRunners engine goneUpstream ec2Accepting noQuota goneRunner)
     = [Deregister ''org'' 1, Terminate ''i-1'']"
proof -
  have "\<forall>r \<in> set (filter (\<lambda>runner. owner runner = ''org'') goneRunner). launchTime r \<noteq> None"
    by (simp add: goneRunner_def)
  then have "ec2RunnersFiltered engine noQuota goneRunner ''org''
               = stableSort oldestFirstStrategy (filter (\<lambda>runner. owner runner = ''org'') goneRunner)"
    by (simp add: ec2RunnersFiltered_def noQuota_def arraySort_oldestFirst)
  moreover have "setOrder (map owner goneRunner) = [''org'']"
    by (simp add: setOrder_def goneRunner_def)
  ultimately have "evictionOrder engine noQuota goneRunner = goneRunner"
    by (simp add: evictionOrder_def) (simp add: stableSort_def goneRunner_def)
  then show ?thesis
    by (simp add: evaluateAndRemoveRunners_order passStart_def)
       (simp add: goneRunner_def evaluateRunner_def goneUpstream_def noQuota_def
          matchingRunners_def endsWith_def runnerMinimumTimeExceeded_def removeRunner_def
          getGitHubRunnerBusyState_def getGitHubSelfHostedRunnerState_def Let_def)
qed

text \<open>
  C4, as the claim states it, fails. The instance \<^verbatim>\<open>i-1\<close> is past its minimum running
  time and there is no idle quota; its runner 1 is in the list of the owner's runners,
  but the direct query of that runner answers 404, so no busy flag is reported for it.
  \<^verbatim>\<open>getGitHubRunnerBusyState\<close> takes the runner for not busy; the de-registration answers
  204, and the instance is terminated.
\<close>

theorem evaluateAndRemoveRunners_not_found_counterexample:
  "effects (evaluateAndRemoveRunners asListed goneUpstream ec2Accepting noQuota goneRunner)
     = [Deregister ''org'' 1, Terminate ''i-1'']
   \<and> matchingRunners [\<lparr>ghId = 1, name = ''runner-i-1'', status = ''online'', busy = False\<rparr>]
        (goneRunner ! 0) \<noteq> []
   \<and> getGitHubSelfHostedRunnerState goneUpstream (goneRunner ! 0) 1 = Inr None"
  by (simp add: goneRunner_effects)
     (simp add: goneRunner_def goneUpstream_def matchingRunners_def endsWith_def
        getGitHubSelfHostedRunnerState_def)

text \<open>
  C4, amended. In a pass of \<^verbatim>\<open>evaluateAndRemoveRunners\<close>, whatever order the engine gives
  to instances without launch time, the termination of an instance is issued only for
  an instance \<open>r\<close> of the pass such that: upstream runners match it; its minimum running
  time is exceeded; the idle counter, after the instances before it in the eviction
  order, is exhausted; for every matched runner the direct query of that runner either
  reports a state with busy = false or answers 404 (the runner is not found, which the
  code takes for not busy); and the de-registration of every matched runner has answered
  204. So when a de-registration answers another status, the termination is not issued.
\<close>

theorem evaluateAndRemoveRunners_terminates_only_if:
  "Terminate i \<in> set (effects (evaluateAndRemoveRunners engine gh ec2 cfg ec2Runners)) \<Longrightarrow>
     \<exists>pre r post ghRunners.
        evictionOrder engine cfg ec2Runners = pre @ r # post \<and> r \<in> set ec2Runners \<and> instanceId r = i
        \<and> listRunners gh (owner r) = Inr ghRunners
        \<and> matchingRunners ghRunners r \<noteq> []
        \<and> runnerMinimumTimeExceeded (timeNow cfg) (minimumRunningTimeInMinutes cfg) r
        \<and> idleCounter (foldl (evaluateRunner gh ec2 cfg) (passStart cfg) pre) \<le> 0
        \<and> (\<forall>g \<in> set (matchingRunners ghRunners r).
              (getGitHubSelfHostedRunnerState gh r (ghId g) = Inr None
               \<or> (\<exists>state. getGitHubSelfHostedRunnerState gh r (ghId g) = Inr (Some state)
                           \<and> \<not> busy state))
              \<and> deleteRunner gh (owner r) (ghId g) = Inr 204)"
proof -
  assume "Terminate i \<in> set (effects (evaluateAndRemoveRunners engine gh ec2 cfg ec2Runners))"
  then have "Terminate i \<in> set (effects (foldl (evaluateRunner gh ec2 cfg) (passStart cfg)
                                            (evictionOrder engine cfg ec2Runners)))"
    by (simp add: evaluateAndRemoveRunners_order)
  from pass_Terminate [OF this] obtain pre r post where
    o: "evictionOrder engine cfg ec2Runners = pre @ r # post" and i: "instanceId r = i"
    and t: "terminable gh cfg r"
    and c: "idleCounter (foldl (evaluateRunner gh ec2 cfg) (passStart cfg) pre) \<le> 0"
    by (auto simp: passStart_def)
  from t obtain ghRunners where "listRunners gh (owner r) = Inr ghRunners"
    "matchingRunners ghRunners r \<noteq> []"
    "runnerMinimumTimeExceeded (timeNow cfg) (minimumRunningTimeInMinutes cfg) r"
    and b: "\<forall>g \<in> set (matchingRunners ghRunners r).
        getGitHubRunnerBusyState gh r (ghId g) = Inr False
        \<and> deleteRunner gh (owner r) (ghId g) = Inr 204"
    by (auto simp: terminable_def list_all_iff split: sum.splits)
  moreover from b have "\<forall>g \<in> set (matchingRunners ghRunners r).
        (getGitHubSelfHostedRunnerState gh r (ghId g) = Inr None
         \<or> (\<exists>state. getGitHubSelfHostedRunnerState gh r (ghId g) = Inr (Some state)
                     \<and> \<not> busy state))
        \<and> deleteRunner gh (owner r) (ghId g) = Inr 204"
    by (simp add: busyState_not_busy)
  moreover from o have "r \<in> set ec2Runners"
    using set_evictionOrder [of engine cfg ec2Runners] by auto
  ultimately show ?thesis using o i c by blast
qed

text \<open>
  In the pass over the four example instances the oldest one is terminated, and it
  meets the conditions: it is the last of the eviction order, and its runner's state is
  reported with busy = false.
\<close>

theorem evaluateAndRemoveRunners_terminates_only_if_witness:
  "Terminate ''i-1'' \<in> set (effects (evaluateAndRemoveRunners asListed idleUpstream ec2Accepting
                                        quotaTwoOldestFirst fourRunners))
   \<and> (\<exists>pre r post ghRunners.
        evictionOrder asListed quotaTwoOldestFirst fourRunners = pre @ r # post
        \<and> r \<in> set fourRunners \<and> instanceId r = ''i-1''
        \<and> listRunners idleUpstream (owner r) = Inr ghRunners
        \<and> matchingRunners ghRunners r \<noteq> []
        \<and> runnerMinimumTimeExceeded (timeNow quotaTwoOldestFirst)
              (minimumRunningTimeInMinutes quotaTwoOldestFirst) r
        \<and> idleCounter (foldl (evaluateRunner idleUpstream ec2Accepting quotaTwoOldestFirst)
                          (passStart quotaTwoOldestFirst) pre) \<le> 0
        \<and> (\<forall>g \<in> set (matchingRunners ghRunners r).
              (getGitHubSelfHostedRunnerState idleUpstream r (ghId g) = Inr None
               \<or> (\<exists>state. getGitHubSelfHostedRunnerState idleUpstream r (ghId g) = Inr (Some state)
                           \<and> \<not> busy state))
              \<and> deleteRunner idleUpstream (owner r) (ghId g) = Inr 204))"
proof -
  have h: "Terminate ''i-1'' \<in> set (effects (evaluateAndRemoveRunners asListed idleUpstream
                                        ec2Accepting quotaTwoOldestFirst fourRunners))"
    by (simp add: fourRunners_effects)
  from evaluateAndRemoveRunners_terminates_only_if [OF h] h show ?thesis by blast
qed





text \<open>
  C6, as the claim states it, fails. In the pass over the four example instances, all
  idle upstream and past the minimum running time, with an idle quota of 2 and the
  strategy \<^verbatim>\<open>oldest_first\<close>, it is the two oldest instances (\<^verbatim>\<open>i-1\<close>, \<^verbatim>\<open>i-2\<close>) that are
  de-registered and terminated, and the two newest (\<^verbatim>\<open>i-3\<close>, \<^verbatim>\<open>i-4\<close>) that are kept.
\<close>

theorem oldest_first_counterexample:
  "effects (evaluateAndRemoveRunners asListed idleUpstream ec2Accepting quotaTwoOldestFirst fourRunners)
     = [Deregister ''org'' 2, Terminate ''i-2'', Deregister ''org'' 1, Terminate ''i-1'']
   \<and> \<not> (Terminate ''i-3'' \<in> set (effects (evaluateAndRemoveRunners asListed idleUpstream ec2Accepting
                                              quotaTwoOldestFirst fourRunners))
         \<and> Terminate ''i-4'' \<in> set (effects (evaluateAndRemoveRunners asListed idleUpstream ec2Accepting
                                              quotaTwoOldestFirst fourRunners))
         \<and> Terminate ''i-1'' \<notin> set (effects (evaluateAndRemoveRunners asListed idleUpstream ec2Accepting
                                              quotaTwoOldestFirst fourRunners))
         \<and> Terminate ''i-2'' \<notin> set (effects (evaluateAndRemoveRunners asListed idleUpstream ec2Accepting
                                              quotaTwoOldestFirst fourRunners)))"
  by (simp add: fourRunners_effects)

text \<open>
  C6, amended. For four instances \<open>r1\<close>, \<open>r2\<close>, \<open>r3\<close>, \<open>r4\<close> of one owner, launched in this
  order and given in any order, all matched upstream, past the minimum running time and
  idle, with every de-registration answering 204, an idle quota of 2 and the strategy
  \<^verbatim>\<open>oldest_first\<close>: the two newest instances \<open>r4\<close> and \<open>r3\<close> are kept and consume the
  quota, and the two oldest are de-registered and terminated, \<open>r2\<close> before \<open>r1\<close>.
\<close>

theorem oldest_first_keeps_newest:
  assumes "distinct rs" "set rs = {r1, r2, r3, r4}"
    and "launchTime r1 = Some t1" "launchTime r2 = Some t2"
        "launchTime r3 = Some t3" "launchTime r4 = Some t4"
    and "t1 < t2" "t2 < t3" "t3 < t4"
    and "\<forall>r \<in> set rs. owner r = ownerTag \<and> terminable gh cfg r"
    and "listRunners gh ownerTag = Inr ghRunners"
    and "evictionStrategy cfg = ''oldest_first''" "idleRunnerCount cfg = 2"
  shows "evaluateAndRemoveRunners engine gh ec2 cfg rs =
     \<lparr>effects = map (Deregister ownerTag) (map ghId (matchingRunners ghRunners r2))
                 @ [Terminate (instanceId r2)]
                 @ map (Deregister ownerTag) (map ghId (matchingRunners ghRunners r1))
                 @ [Terminate (instanceId r1)],
      idleCounter = 0, thrown = None\<rparr>"
proof -
  have ne: "rs \<noteq> []" using assms(2) by auto
  have own: "owner r1 = ownerTag" "owner r2 = ownerTag" "owner r3 = ownerTag" "owner r4 = ownerTag"
    and tm: "terminable gh cfg r1" "terminable gh cfg r2" "terminable gh cfg r3" "terminable gh cfg r4"
    using assms(2,10) by auto
  have "setOrder (map owner rs) = [ownerTag]"
    using ne assms(10) by (intro setOrder_single) auto
  moreover have "filter (\<lambda>runner. owner runner = ownerTag) rs = rs"
    using assms(10) by (simp add: filter_id_conv)
  moreover have "\<forall>r \<in> set rs. launchTime r \<noteq> None"
    using assms(2-6) by auto
  ultimately have order: "evictionOrder engine cfg rs = [r4, r3, r2, r1]"
    using stableSort_four [OF assms(1-9)] assms(12)
    by (simp add: evictionOrder_def ec2RunnersFiltered_def arraySort_oldestFirst)
  show ?thesis
    unfolding evaluateAndRemoveRunners_order order
    using tm own assms(11,13)
    by (simp add: passStart_def evaluateRunner_terminable)
qed


lemma fourRunners_terminable:
  "\<forall>r \<in> set fourRunners. owner r = ''org'' \<and> terminable idleUpstream quotaTwoOldestFirst r"
  by (simp add: fourRunners_def terminable_def idleUpstream_def idleRunners_def
        quotaTwoOldestFirst_def matchingRunners_def endsWith_def runnerMinimumTimeExceeded_def
        getGitHubRunnerBusyState_def getGitHubSelfHostedRunnerState_def)

theorem oldest_first_keeps_newest_witness:
  "evaluateAndRemoveRunners asListed idleUpstream ec2Accepting quotaTwoOldestFirst fourRunners =
     \<lparr>effects = [Deregister ''org'' 2, Terminate ''i-2'', Deregister ''org'' 1, Terminate ''i-1''],
      idleCounter = 0, thrown = None\<rparr>"
proof -
  have d: "distinct fourRunners"
    and s: "set fourRunners = {fourRunners ! 2, fourRunners ! 0, fourRunners ! 3, fourRunners ! 1}"
    and l: "launchTime (fourRunners ! 2) = Some 1000" "launchTime (fourRunners ! 0) = Some 2000"
           "launchTime (fourRunners ! 3) = Some 3000" "launchTime (fourRunners ! 1) = Some 4000"
    and u: "listRunners idleUpstream ''org'' = Inr idleRunners"
    and c: "evictionStrategy quotaTwoOldestFirst = ''oldest_first''"
           "idleRunnerCount quotaTwoOldestFirst = 2"
    by (auto simp: fourRunners_def idleUpstream_def quotaTwoOldestFirst_def)
  show ?thesis
    using oldest_first_keeps_newest [OF d s l _ _ _ fourRunners_terminable u c, of asListed ec2Accepting]
    by (simp add: fourRunners_def idleRunners_def matchingRunners_def endsWith_def)
qed


section \<open>The scale-up dispatcher: theorems\<close>

lemma threeMessages_valid:
  "validateMessages (capOf m e) oneRunning threeMessages [] []
     = Inr ([(''Codertocat'', threeMessages)], [])"
  by (simp add: threeMessages_def capOf_def oneRunning_def batchMessage_def groupKey_def
        isValidRepoOwnerTypeIfOrgLevelEnabled_def)

lemma threeMessages_queued:
  "countQueued (capOf m e) oneRunning threeMessages 0 = Inr 3"
  by (simp add: threeMessages_def capOf_def oneRunning_def batchMessage_def isJobQueued_def)

lemma take_filter_prefix:
  "list_all P (take k xs) \<Longrightarrow> take k (filter P xs) = take k xs"
proof (induction xs arbitrary: k)
  case Nil
  then show ?case by simp
next
  case (Cons x xs)
  then show ?case by (cases k) auto
qed

lemma countQueued_want:
  "countQueued cfg answers messages n = Inr w \<Longrightarrow> w = n + wantOf cfg answers messages"
proof (induction messages arbitrary: n)
  case Nil
  then show ?case by (simp add: wantOf_def)
next
  case (Cons m messages)
  show ?case
  proof (cases "surviving cfg answers m")
    case True
    with Cons.prems have "countQueued cfg answers messages (n + 1) = Inr w"
      by (auto simp: surviving_def split: sum.splits if_splits)
    from Cons.IH [OF this] True show ?thesis by (simp add: wantOf_def)
  next
    case False
    with Cons.prems have "countQueued cfg answers messages n = Inr w"
      by (auto simp: surviving_def split: sum.splits if_splits)
    from Cons.IH [OF this] False show ?thesis by (simp add: wantOf_def)
  qed
qed

lemma scaleGroups_returns:
  "scaleGroups cfg answers groups invalid = (calls, Inr rejected) \<Longrightarrow>
     calls = concat (map (\<lambda>g. fst (scaleGroup cfg answers g)) groups)
     \<and> (\<forall>g \<in> set groups. \<exists>r. snd (scaleGroup cfg answers g) = Inr r)
     \<and> rejected = invalid @ concat (map (\<lambda>g. projr (snd (scaleGroup cfg answers g))) groups)"
proof (induction groups arbitrary: invalid calls rejected)
  case Nil
  then show ?case by simp
next
  case (Cons entry rest)
  obtain c res where e: "scaleGroup cfg answers entry = (c, res)"
    by (cases "scaleGroup cfg answers entry")
  with Cons.prems obtain rej where r: "res = Inr rej"
    by (cases res) auto
  obtain c' res' where s: "scaleGroups cfg answers rest (invalid @ rej) = (c', res')"
    by (cases "scaleGroups cfg answers rest (invalid @ rej)")
  with Cons.prems e r have "calls = c @ c'" "res' = Inr rejected" by auto
  with Cons.IH [of "invalid @ rej" c' rejected] s e r show ?case by auto
qed

lemma scaleGroup_returns:
  assumes "snd (scaleGroup cfg answers (scope, messages)) = Inr r"
    and "maximumRunners cfg \<noteq> - 1"
    and "currentOf answers scope \<le> maximumRunners cfg"
  shows "fst (scaleGroup cfg answers (scope, messages))
           = (if newCountOf cfg answers scope messages = 0 then []
              else [(scope, newCountOf cfg answers scope messages)])
     \<and> ((ephemeralEnabled cfg \<longrightarrow>
            list_all (surviving cfg answers)
              (take (nat (wantOf cfg answers messages - newCountOf cfg answers scope messages))
                 messages)) \<longrightarrow>
         r = capacityRejected cfg answers scope messages
               @ shortfallRejected cfg answers scope messages)"
proof -
  define w where "w = wantOf cfg answers messages"
  define k where "k = newCountOf cfg answers scope messages"
  from assms(1) obtain w' where "countQueued cfg answers messages 0 = Inr w'"
    by (cases "countQueued cfg answers messages 0") (auto simp: scaleGroup_def)
  with countQueued_want [OF this] have q: "countQueued cfg answers messages 0 = Inr w"
    by (simp add: w_def)
  have w0: "0 \<le> w" by (simp add: w_def wantOf_def)
  have t: "take (nat (w - k)) (filter (surviving cfg answers) messages) = take (nat (w - k)) messages"
    if "list_all (surviving cfg answers) (take (nat (w - k)) messages)"
    using that by (rule take_filter_prefix)
  show ?thesis
  proof (cases "w = 0")
    case True
    then have "k = 0" using assms(3) by (simp add: k_def newCountOf_def w_def [symmetric])
    moreover have "scaleGroup cfg answers (scope, messages) = ([], Inr [])"
      using q True by (simp add: scaleGroup_def)
    ultimately show ?thesis
      using assms(1) True
      by (simp add: k_def [symmetric] w_def [symmetric] capacityRejected_def shortfallRejected_def)
  next
    case False
    with w0 have wp: "0 < w" by simp
    from assms(1,2) q False obtain runners where l: "listEC2Runners answers scope = Inr runners"
      by (cases "listEC2Runners answers scope") (auto simp: scaleGroup_def)
    define cur where "cur = int (length runners)"
    have c: "currentOf answers scope = cur" by (simp add: currentOf_def l cur_def)
    with assms(3) have cm: "cur \<le> maximumRunners cfg" by simp
    have k: "k = min w (maximumRunners cfg - cur)"
      using cm by (simp add: k_def newCountOf_def w_def [symmetric] c)
    have k0: "0 \<le> k" "k \<le> w" using cm w0 by (simp_all add: k)
    show ?thesis
    proof (cases "k = 0")
      case True
      have "scaleGroup cfg answers (scope, messages)
              = ([], Inr (map messageId (if ephemeralEnabled cfg then take (nat w) messages else [])))"
        using q False l assms(2) wp True k
        by (simp add: scaleGroup_def cur_def [symmetric] Let_def)
      then show ?thesis
        using assms(1) True t
        by (auto simp: k_def [symmetric] w_def [symmetric] capacityRejected_def shortfallRejected_def)
    next
      case kp: False
      have sg: "scaleGroup cfg answers (scope, messages)
              = (case createRunners answers scope k of
                   Inl e \<Rightarrow> ([(scope, k)], Inl e)
                 | Inr instances \<Rightarrow>
                     ([(scope, k)],
                      Inr (map messageId (if ephemeralEnabled cfg then take (nat (w - k)) messages else [])
                           @ (if int (length instances) \<noteq> k
                              then map messageId
                                     (slice0 (if ephemeralEnabled cfg then drop (nat (w - k)) messages
                                              else messages)
                                        (k - int (length instances)))
                              else []))))"
        using q False l assms(2) wp kp k0 k [symmetric]
        by (auto simp: scaleGroup_def cur_def [symmetric] Let_def split: sum.splits)
      with assms(1) obtain instances where i: "createRunners answers scope k = Inr instances"
        by (cases "createRunners answers scope k") auto
      show ?thesis
        using assms(1) kp t
        by (auto simp: sg i k_def [symmetric] w_def [symmetric] capacityRejected_def
              shortfallRejected_def Let_def)
    qed
  qed
qed


lemma threeMessages_rejected:
  "scaleUp (capOf 1 True) oneRunning threeMessages
     = ([], Inr [''message-0'', ''message-1'', ''message-2''])"
proof -
  have a: "appClient oneRunning = None"
    and l: "listEC2Runners oneRunning ''Codertocat''
              = Inr [\<lparr>instanceId = ''i-existing'', launchTime = Some 0, owner = ''Codertocat'', type = ''Org''\<rparr>]"
    and c: "maximumRunners (capOf 1 True) = 1" "ephemeralEnabled (capOf 1 True) = True"
    by (simp_all add: oneRunning_def capOf_def)
  have "scaleGroup (capOf 1 True) oneRunning (''Codertocat'', threeMessages)
          = ([], Inr [''message-0'', ''message-1'', ''message-2''])"
    by (simp add: scaleGroup_def threeMessages_queued l c)
       (simp add: threeMessages_def batchMessage_def char_of_def)
  then show ?thesis
    by (simp add: scaleUp_def a threeMessages_valid)
qed

lemma twoScopes_valid:
  "validateMessages (capOf m e) thirdCompleted twoScopes [] []
     = Inr ([(''Codertocat'', threeMessages), (''octo-org'', [otherMessage])], [])"
  by (simp add: twoScopes_def threeMessages_def capOf_def thirdCompleted_def batchMessage_def
        otherMessage_def groupKey_def isValidRepoOwnerTypeIfOrgLevelEnabled_def)

lemma twoScopes_surviving:
  "filter (surviving (capOf m e) thirdCompleted) threeMessages = [batchMessage 0, batchMessage 1]"
  "surviving (capOf m e) thirdCompleted otherMessage"
  by (simp_all add: surviving_def threeMessages_def capOf_def thirdCompleted_def batchMessage_def
        otherMessage_def isJobQueued_def)

lemma twoScopes_counts:
  "wantOf (capOf m e) thirdCompleted threeMessages = 2"
  "wantOf (capOf m e) thirdCompleted [otherMessage] = 1"
  "currentOf thirdCompleted ''Codertocat'' = 1"
  "currentOf thirdCompleted ''octo-org'' = 0"
  by (simp_all add: wantOf_def twoScopes_surviving)
     (simp_all add: currentOf_def thirdCompleted_def)

lemma twoScopes_scaleUp:
  "scaleUp (capOf 2 True) thirdCompleted twoScopes
     = ([(''Codertocat'', 1), (''octo-org'', 1)], Inr [''message-0''])"
proof -
  have q: "countQueued (capOf 2 True) thirdCompleted threeMessages 0 = Inr 2"
    by (simp add: threeMessages_def capOf_def thirdCompleted_def batchMessage_def isJobQueued_def)
  have a: "scaleGroup (capOf 2 True) thirdCompleted (''Codertocat'', threeMessages)
             = ([(''Codertocat'', 1)], Inr [''message-0''])"
    by (simp add: scaleGroup_def q)
       (simp add: capOf_def thirdCompleted_def threeMessages_def batchMessage_def char_of_def)
  have b: "scaleGroup (capOf 2 True) thirdCompleted (''octo-org'', [otherMessage])
             = ([(''octo-org'', 1)], Inr [])"
    by (simp add: scaleGroup_def capOf_def thirdCompleted_def otherMessage_def isJobQueued_def)
  have c: "appClient thirdCompleted = None" by (simp add: thirdCompleted_def)
  show ?thesis
    by (simp add: scaleUp_def c twoScopes_valid a b)
qed

text \<open>
  C1, as the claim states it, fails: for the batch of three messages of one scope with
  a maximum of 1 and one instance running, \<^verbatim>\<open>scaleUp\<close> in non-ephemeral mode makes no call
  of \<^verbatim>\<open>createRunners\<close> and rejects no message.
\<close>

theorem scaleUp_capacity_counterexample:
  "scaleUp (capOf 1 False) oneRunning threeMessages = ([], Inr [])
   \<and> snd (scaleUp (capOf 1 False) oneRunning threeMessages)
       \<noteq> Inr [''message-0'', ''message-1'', ''message-2'']"
proof -
  have a: "appClient oneRunning = None"
    and l: "listEC2Runners oneRunning ''Codertocat''
              = Inr [\<lparr>instanceId = ''i-existing'', launchTime = Some 0, owner = ''Codertocat'', type = ''Org''\<rparr>]"
    and c: "maximumRunners (capOf 1 False) = 1" "ephemeralEnabled (capOf 1 False) = False"
    by (simp_all add: oneRunning_def capOf_def)
  have "scaleGroup (capOf 1 False) oneRunning (''Codertocat'', threeMessages) = ([], Inr [])"
    by (simp add: scaleGroup_def threeMessages_queued l c)
  then show ?thesis
    by (simp add: scaleUp_def a threeMessages_valid)
qed

text \<open>
  C1, amended. Take a batch for which \<^verbatim>\<open>scaleUp\<close> returns, with a maximum other than -1
  that the instance inventory of no scope of the batch exceeds. For every owning scope
  of the batch, in the order of the batch, with \<open>want\<close> the number of its messages that
  survive the queued filter and \<open>current\<close> the size of its instance inventory:
  \<^verbatim>\<open>createRunners\<close> is called once for the scope, with
  \<open>newCount = min want (max 0 (maximum - current))\<close> runners, when that is positive, and
  not at all when it is 0. In non-ephemeral mode no message is rejected for the
  capacity. In ephemeral mode the first \<open>want - newCount\<close> surviving messages of the
  scope are added to the reject list, provided that they are the first messages of the
  scope. (The reject list holds, besides, the messages rejected by the validation and
  those rejected for the instances that \<^verbatim>\<open>createRunners\<close> did not return.)
\<close>

theorem scaleUp_capacity:
  assumes "scaleUp cfg answers payloads = (calls, Inr rejected)"
    and "validateMessages cfg answers payloads [] [] = Inr (groups, invalidMessages)"
    and "maximumRunners cfg \<noteq> - 1"
    and "\<forall>(scope, messages) \<in> set groups. currentOf answers scope \<le> maximumRunners cfg"
  shows "calls = concat (map (\<lambda>(scope, messages).
                    if newCountOf cfg answers scope messages = 0 then []
                    else [(scope, newCountOf cfg answers scope messages)]) groups)
     \<and> ((ephemeralEnabled cfg \<longrightarrow>
           (\<forall>(scope, messages) \<in> set groups.
              list_all (surviving cfg answers)
                (take (nat (wantOf cfg answers messages - newCountOf cfg answers scope messages))
                   messages)))
        \<longrightarrow> rejected = invalidMessages @ concat (map (\<lambda>(scope, messages).
                    capacityRejected cfg answers scope messages
                    @ shortfallRejected cfg answers scope messages) groups))"
proof -
  from assms(1,2) have g: "scaleGroups cfg answers groups invalidMessages = (calls, Inr rejected)"
    by (auto simp: scaleUp_def split: option.splits)
  from scaleGroups_returns [OF g] have
    c: "calls = concat (map (\<lambda>g. fst (scaleGroup cfg answers g)) groups)"
    and r: "\<forall>g \<in> set groups. \<exists>r. snd (scaleGroup cfg answers g) = Inr r"
    and j: "rejected = invalidMessages
              @ concat (map (\<lambda>g. projr (snd (scaleGroup cfg answers g))) groups)"
    by simp_all
  have each: "fst (scaleGroup cfg answers (scope, messages))
           = (if newCountOf cfg answers scope messages = 0 then []
              else [(scope, newCountOf cfg answers scope messages)])
     \<and> ((ephemeralEnabled cfg \<longrightarrow>
            list_all (surviving cfg answers)
              (take (nat (wantOf cfg answers messages - newCountOf cfg answers scope messages))
                 messages)) \<longrightarrow>
         projr (snd (scaleGroup cfg answers (scope, messages)))
           = capacityRejected cfg answers scope messages
               @ shortfallRejected cfg answers scope messages)"
    if "(scope, messages) \<in> set groups" for scope messages
  proof -
    from r that obtain r' where s: "snd (scaleGroup cfg answers (scope, messages)) = Inr r'"
      by blast
    from assms(4) that have "currentOf answers scope \<le> maximumRunners cfg" by auto
    from scaleGroup_returns [OF s assms(3) this] s show ?thesis by simp
  qed
  have "map (\<lambda>g. fst (scaleGroup cfg answers g)) groups
          = map (\<lambda>(scope, messages).
                    if newCountOf cfg answers scope messages = 0 then []
                    else [(scope, newCountOf cfg answers scope messages)]) groups"
    using each by (intro map_cong) auto
  with c have first: "calls = concat (map (\<lambda>(scope, messages).
                    if newCountOf cfg answers scope messages = 0 then []
                    else [(scope, newCountOf cfg answers scope messages)]) groups)"
    by simp
  have second: "rejected = invalidMessages @ concat (map (\<lambda>(scope, messages).
                    capacityRejected cfg answers scope messages
                    @ shortfallRejected cfg answers scope messages) groups)"
    if p: "ephemeralEnabled cfg \<longrightarrow>
           (\<forall>(scope, messages) \<in> set groups.
              list_all (surviving cfg answers)
                (take (nat (wantOf cfg answers messages - newCountOf cfg answers scope messages))
                   messages))"
  proof -
    have "map (\<lambda>g. projr (snd (scaleGroup cfg answers g))) groups
          = map (\<lambda>(scope, messages).
                    capacityRejected cfg answers scope messages
                    @ shortfallRejected cfg answers scope messages) groups"
      using each p by (intro map_cong) auto
    with j show ?thesis by simp
  qed
  from first second show ?thesis by blast
qed

text \<open>
  In ephemeral mode with a maximum of 2, the batch of two scopes: the first scope has
  three messages of which two survive, and one instance, so one runner is requested
  and the first message is rejected; the second scope has one message and no instance,
  so one runner is requested and nothing is rejected. And in ephemeral mode with a
  maximum of 1, the batch of three queued messages of one scope with one instance: no
  runner is requested and the three messages are rejected.
\<close>

theorem scaleUp_capacity_witness:
  "scaleUp (capOf 2 True) thirdCompleted twoScopes
     = ([(''Codertocat'', 1), (''octo-org'', 1)], Inr [''message-0''])
   \<and> wantOf (capOf 2 True) thirdCompleted threeMessages = 2
   \<and> newCountOf (capOf 2 True) thirdCompleted ''Codertocat'' threeMessages = 1
   \<and> capacityRejected (capOf 2 True) thirdCompleted ''Codertocat'' threeMessages = [''message-0'']
   \<and> newCountOf (capOf 2 True) thirdCompleted ''octo-org'' [otherMessage] = 1
   \<and> capacityRejected (capOf 2 True) thirdCompleted ''octo-org'' [otherMessage] = []
   \<and> scaleUp (capOf 1 True) oneRunning threeMessages
     = ([], Inr [''message-0'', ''message-1'', ''message-2''])
   \<and> wantOf (capOf 1 True) oneRunning threeMessages = 3
   \<and> newCountOf (capOf 1 True) oneRunning ''Codertocat'' threeMessages = 0
   \<and> capacityRejected (capOf 1 True) oneRunning ''Codertocat'' threeMessages
     = [''message-0'', ''message-1'', ''message-2'']"
proof -
  have m: "maximumRunners (capOf 2 True) \<noteq> - 1" "maximumRunners (capOf 1 True) \<noteq> - 1"
    by (simp_all add: capOf_def)
  have n: "newCountOf (capOf 2 True) thirdCompleted ''Codertocat'' threeMessages = 1"
    "newCountOf (capOf 2 True) thirdCompleted ''octo-org'' [otherMessage] = 1"
    by (simp_all add: newCountOf_def twoScopes_counts) (simp_all add: capOf_def)
  have c: "\<forall>(scope, messages) \<in> set [(''Codertocat'', threeMessages), (''octo-org'', [otherMessage])].
             currentOf thirdCompleted scope \<le> maximumRunners (capOf 2 True)"
    by (simp add: twoScopes_counts) (simp add: capOf_def)
  have r: "capacityRejected (capOf 2 True) thirdCompleted ''Codertocat'' threeMessages = [''message-0'']"
    "capacityRejected (capOf 2 True) thirdCompleted ''octo-org'' [otherMessage] = []"
    by (simp_all add: capacityRejected_def n twoScopes_counts twoScopes_surviving)
       (simp_all add: capOf_def batchMessage_def char_of_def)
  have s3: "filter (surviving (capOf 1 True) oneRunning) threeMessages = threeMessages"
    by (simp add: surviving_def threeMessages_def capOf_def oneRunning_def batchMessage_def
          isJobQueued_def)
  have w3: "wantOf (capOf 1 True) oneRunning threeMessages = 3"
    by (simp add: wantOf_def s3) (simp add: threeMessages_def)
  have n3: "newCountOf (capOf 1 True) oneRunning ''Codertocat'' threeMessages = 0"
    by (simp add: newCountOf_def w3) (simp add: capOf_def currentOf_def oneRunning_def)
  have c3: "\<forall>(scope, messages) \<in> set [(''Codertocat'', threeMessages)].
             currentOf oneRunning scope \<le> maximumRunners (capOf 1 True)"
    by (simp add: capOf_def currentOf_def oneRunning_def)
  have r3: "capacityRejected (capOf 1 True) oneRunning ''Codertocat'' threeMessages
              = [''message-0'', ''message-1'', ''message-2'']"
    by (simp add: capacityRejected_def n3 w3 s3)
       (simp add: capOf_def threeMessages_def batchMessage_def char_of_def)
  from scaleUp_capacity [OF twoScopes_scaleUp twoScopes_valid m(1) c]
       scaleUp_capacity [OF threeMessages_rejected threeMessages_valid m(2) c3]
       twoScopes_scaleUp threeMessages_rejected n r w3 n3 r3
  show ?thesis by (simp add: twoScopes_counts)
qed


text \<open>
  Two behaviours that the amended claim leaves out. When the instances of the scope
  exceed the maximum, the difference is negative and \<^verbatim>\<open>createRunners\<close> is called with a
  negative number of runners. And the messages rejected for the capacity are the first
  of the list of the scope, whether or not they survived the queued filter: here the
  first job is not queued any more and the second is, and it is the first message that
  is rejected.
\<close>

lemma scaleGroup_negative_budget:
  "fst (scaleGroup (capOf 0 True) oneRunning (''Codertocat'', [batchMessage 0]))
     = [(''Codertocat'', - 1)]"
  by (simp add: scaleGroup_def capOf_def oneRunning_def batchMessage_def isJobQueued_def Let_def)

lemma scaleGroup_rejects_unqueued:
  "scaleGroup (capOf 1 True)
       (oneRunning\<lparr>jobStatus := (\<lambda>payload. if jobId payload = 1 then Inr ''completed''
                                               else Inr ''queued'')\<rparr>)
       (''Codertocat'', [batchMessage 0, batchMessage 1])
     = ([], Inr [''message-0''])"
  by (simp add: scaleGroup_def capOf_def oneRunning_def batchMessage_def isJobQueued_def Let_def
        char_of_def)

section \<open>Just-in-time configuration: theorems\<close>

lemma jitLoop_completes:
  assumes "\<forall>i \<in> set instances.
             generateRunnerJitconfig answers (jitRunnerType cfg) (jitRunnerOwner cfg)
               \<lparr>runnerName = runnerNamePrefix cfg @ i, runnerGroupId = g, runnerLabels = labels\<rparr>
             = Inr (ridOf i, blobOf i)"
    and "\<forall>i \<in> set instances. putParameter answers (jitSsmTokenPath cfg @ ''/'' @ i) (blobOf i) = None"
  shows "fst (jitLoop cfg answers g labels instances st) = None
     \<and> (\<forall>i \<in> set instances.
           parameters (snd (jitLoop cfg answers g labels instances st)) (jitSsmTokenPath cfg @ ''/'' @ i)
             = Some (blobOf i))
     \<and> (\<forall>p. (\<forall>i \<in> set instances. p \<noteq> jitSsmTokenPath cfg @ ''/'' @ i) \<longrightarrow>
           parameters (snd (jitLoop cfg answers g labels instances st)) p = parameters st p)
     \<and> (\<forall>i. (i \<in> set instances \<longrightarrow>
                tagInstance answers i
                  [\<lparr>Key = ''ghr:github_runner_id'', Value = idToString answers (ridOf i)\<rparr>] \<noteq> None) \<longrightarrow>
           instanceTags (snd (jitLoop cfg answers g labels instances st)) i = instanceTags st i)"
  using assms
proof (induction instances arbitrary: st)
  case Nil
  then show ?case by simp
next
  case (Cons a instances)
  let ?st1 = "tagRunnerId answers a (idToString answers (ridOf a)) st"
  let ?st2 = "?st1\<lparr>parameters := (parameters ?st1)(jitSsmTokenPath cfg @ ''/'' @ a \<mapsto> blobOf a)\<rparr>"
  have step: "jitLoop cfg answers g labels (a # instances) st
                = jitLoop cfg answers g labels instances ?st2"
    using Cons.prems by (simp add: Let_def)
  have ih: "fst (jitLoop cfg answers g labels instances ?st2) = None
     \<and> (\<forall>i \<in> set instances.
           parameters (snd (jitLoop cfg answers g labels instances ?st2)) (jitSsmTokenPath cfg @ ''/'' @ i)
             = Some (blobOf i))
     \<and> (\<forall>p. (\<forall>i \<in> set instances. p \<noteq> jitSsmTokenPath cfg @ ''/'' @ i) \<longrightarrow>
           parameters (snd (jitLoop cfg answers g labels instances ?st2)) p = parameters ?st2 p)
     \<and> (\<forall>i. (i \<in> set instances \<longrightarrow>
                tagInstance answers i
                  [\<lparr>Key = ''ghr:github_runner_id'', Value = idToString answers (ridOf i)\<rparr>] \<noteq> None) \<longrightarrow>
           instanceTags (snd (jitLoop cfg answers g labels instances ?st2)) i = instanceTags ?st2 i)"
    using Cons.prems by (intro Cons.IH) simp_all
  have tags: "instanceTags ?st2 i = instanceTags st i"
    if "i = a \<longrightarrow> tagInstance answers i
          [\<lparr>Key = ''ghr:github_runner_id'', Value = idToString answers (ridOf i)\<rparr>] \<noteq> None" for i
    using that by (auto simp: tagRunnerId_def split: option.splits)
  have pst: "parameters ?st2 = (parameters st)(jitSsmTokenPath cfg @ ''/'' @ a \<mapsto> blobOf a)"
    by (simp add: tagRunnerId_def split: option.splits)
  show ?case
    unfolding step
  proof (intro conjI allI ballI impI)
    show "fst (jitLoop cfg answers g labels instances ?st2) = None" using ih by simp
  next
    fix i assume i: "i \<in> set (a # instances)"
    show "parameters (snd (jitLoop cfg answers g labels instances ?st2)) (jitSsmTokenPath cfg @ ''/'' @ i)
            = Some (blobOf i)"
    proof (cases "i \<in> set instances")
      case True
      with ih show ?thesis by blast
    next
      case False
      with i have ia: "i = a" by simp
      from False have "\<forall>j \<in> set instances. jitSsmTokenPath cfg @ ''/'' @ i \<noteq> jitSsmTokenPath cfg @ ''/'' @ j"
        by auto
      with ih have "parameters (snd (jitLoop cfg answers g labels instances ?st2)) (jitSsmTokenPath cfg @ ''/'' @ i)
                      = parameters ?st2 (jitSsmTokenPath cfg @ ''/'' @ i)"
        by blast
      with ia pst show ?thesis by simp
    qed
  next
    fix p assume p: "\<forall>i \<in> set (a # instances). p \<noteq> jitSsmTokenPath cfg @ ''/'' @ i"
    with ih have "parameters (snd (jitLoop cfg answers g labels instances ?st2)) p = parameters ?st2 p"
      by simp
    with p pst show "parameters (snd (jitLoop cfg answers g labels instances ?st2)) p = parameters st p"
      by simp
  next
    fix i assume t: "i \<in> set (a # instances) \<longrightarrow> tagInstance answers i
          [\<lparr>Key = ''ghr:github_runner_id'', Value = idToString answers (ridOf i)\<rparr>] \<noteq> None"
    with ih have "instanceTags (snd (jitLoop cfg answers g labels instances ?st2)) i = instanceTags ?st2 i"
      by simp
    with tags [of i] t show "instanceTags (snd (jitLoop cfg answers g labels instances ?st2)) i = instanceTags st i"
      by simp
  qed
qed

text \<open>
  C10. When the runner group is resolved, the upstream service answers the generation
  of the configuration for every instance, and the parameter store accepts the writes:
  whatever the cloud answers to the tagging calls, \<^verbatim>\<open>createJitConfig\<close> does not throw, the
  secret of every instance is written at its path, and an instance whose tagging is
  rejected keeps the tags it had, so it has its secret and no tag of the upstream
  runner id.
\<close>

theorem createJitConfig_tag_failure:
  assumes "getRunnerGroupId cfg answers = Inr g"
    and "\<forall>i \<in> set instances.
           generateRunnerJitconfig answers (jitRunnerType cfg) (jitRunnerOwner cfg)
             (jitRequest cfg g i) = Inr (ridOf i, blobOf i)"
    and "\<forall>i \<in> set instances. putParameter answers (jitSsmTokenPath cfg @ ''/'' @ i) (blobOf i) = None"
  shows "fst (createJitConfig cfg answers instances st) = None
     \<and> (\<forall>i \<in> set instances.
           parameters (snd (createJitConfig cfg answers instances st)) (jitSsmTokenPath cfg @ ''/'' @ i)
             = Some (blobOf i))
     \<and> (\<forall>i \<in> set instances.
           tagInstance answers i
             [\<lparr>Key = ''ghr:github_runner_id'', Value = idToString answers (ridOf i)\<rparr>] \<noteq> None \<longrightarrow>
           instanceTags (snd (createJitConfig cfg answers instances st)) i = instanceTags st i)"
proof -
  have c: "createJitConfig cfg answers instances st
             = jitLoop cfg answers g (splitAt CHR '','' (jitRunnerLabels cfg)) instances st"
    using assms(1) by (simp add: createJitConfig_def)
  from jitLoop_completes [of instances answers cfg g "splitAt CHR '','' (jitRunnerLabels cfg)" ridOf blobOf st]
    assms(2,3)
  show ?thesis
    unfolding c by (simp add: jitRequest_def)
qed


text \<open>
  Two instances, the tagging of the first of which is rejected: both secrets are
  written, the first instance has no tag, the second has the tag of its runner id.
\<close>

theorem createJitConfig_tag_failure_witness:
  "fst (createJitConfig jitExample jitServices [''i-1'', ''i-2''] emptyFabric) = None
   \<and> parameters (snd (createJitConfig jitExample jitServices [''i-1'', ''i-2''] emptyFabric))
        ''/github-action-runners/default/runners/config/i-1'' = Some ''jit-i-1''
   \<and> parameters (snd (createJitConfig jitExample jitServices [''i-1'', ''i-2''] emptyFabric))
        ''/github-action-runners/default/runners/config/i-2'' = Some ''jit-i-2''
   \<and> instanceTags (snd (createJitConfig jitExample jitServices [''i-1'', ''i-2''] emptyFabric))
        ''i-1'' = []
   \<and> instanceTags (snd (createJitConfig jitExample jitServices [''i-1'', ''i-2''] emptyFabric))
        ''i-2'' = [\<lparr>Key = ''ghr:github_runner_id'', Value = ''102''\<rparr>]"
proof -
  have g: "getRunnerGroupId jitExample jitServices = Inr 1"
    by (simp add: getRunnerGroupId_def jitServices_def jitExample_def)
  have r: "\<forall>i \<in> set [''i-1'', ''i-2''].
             generateRunnerJitconfig jitServices (jitRunnerType jitExample) (jitRunnerOwner jitExample)
               (jitRequest jitExample 1 i)
             = Inr ((\<lambda>i. if i = ''i-1'' then 101 else 102) i,
                    (\<lambda>i. if i = ''i-1'' then ''jit-i-1'' else ''jit-i-2'') i)"
    by (simp add: jitServices_def jitExample_def jitRequest_def)
  have p: "\<forall>i \<in> set [''i-1'', ''i-2''].
             putParameter jitServices (jitSsmTokenPath jitExample @ ''/'' @ i)
               ((\<lambda>i. if i = ''i-1'' then ''jit-i-1'' else ''jit-i-2'') i) = None"
    by (simp add: jitServices_def)
  have t: "instanceTags (snd (createJitConfig jitExample jitServices [''i-1'', ''i-2''] emptyFabric))
             ''i-2'' = [\<lparr>Key = ''ghr:github_runner_id'', Value = ''102''\<rparr>]"
    by (simp add: createJitConfig_def g)
       (simp add: jitServices_def jitExample_def emptyFabric_def tagRunnerId_def Let_def)
  show ?thesis
    using createJitConfig_tag_failure [OF g r p, of emptyFabric] t
    by (simp add: jitServices_def jitExample_def emptyFabric_def)
qed

end
